theory Spec2Isabelle
  imports
    Complex_Main
    "HOL-Library.Option_ord"
    "HOL-Library.Char_ord"
    "HOL-Library.List_Lexorder"
    "HOL-Library.Log_Nat"
begin

section \<open>Numbers\<close>

text \<open>
  A JavaScript number is an IEEE 754 double: a finite value, \<open>NaN\<close> or one of the two
  infinities. A finite double is the rational number it denotes; negative zero is the
  same number as zero, since the code never divides by a zero and nothing else tells
  the two apart.
\<close>

datatype number = Num rat | NaN | Infinity | NegInfinity

text \<open>The binary exponent of a positive rational \<open>a\<close>: \<open>2 ^ e \<le> a < 2 ^ (e + 1)\<close>.\<close>

definition ilog2 :: "rat \<Rightarrow> int" where
  "ilog2 a =
     (if 1 \<le> a then bitlen \<lfloor>a\<rfloor> - 1
      else (let k = bitlen \<lfloor>1 / a\<rfloor> - 1 in if 1 / a = 2 powi k then - k else - k - 1))"

text \<open>The nearest integer, the even one of two.\<close>

definition round_even :: "rat \<Rightarrow> int" where
  "round_even y =
     (let f = \<lfloor>y\<rfloor>; d = y - of_int f in
      if d < 1 / 2 then f else if 1 / 2 < d then f + 1 else if even f then f else f + 1)"

text \<open>
  Rounding to nearest, ties to even, as every arithmetic operation and every conversion
  of a decimal literal does: 53 significant bits, exponents from \<open>- 1022\<close> (below it
  the subnormal numbers, spaced \<open>2 ^ - 1074\<close>) to 1023, and an infinity when the
  rounded magnitude reaches \<open>2 ^ 1024\<close>.
\<close>

definition round_to_double :: "rat \<Rightarrow> number" where
  "round_to_double x =
     (if x = 0 then Num 0
      else
        (let e = max (ilog2 \<bar>x\<bar>) (- 1022);
             ulp = 2 powi (e - 52);
             y = of_int (round_even (\<bar>x\<bar> / ulp)) * ulp
         in if y \<noteq> 0 \<and> 1024 \<le> ilog2 y then (if 0 < x then Infinity else NegInfinity)
            else Num (if 0 < x then y else - y)))"

text \<open>The operators \<open>*\<close>, \<open>+\<close> and \<open>/\<close> on numbers.\<close>

fun js_times :: "number \<Rightarrow> number \<Rightarrow> number" where
  "js_times (Num x) (Num y) = round_to_double (x * y)"
| "js_times NaN _ = NaN"
| "js_times _ NaN = NaN"
| "js_times (Num x) Infinity = (if x = 0 then NaN else if 0 < x then Infinity else NegInfinity)"
| "js_times (Num x) NegInfinity = (if x = 0 then NaN else if 0 < x then NegInfinity else Infinity)"
| "js_times Infinity (Num y) = (if y = 0 then NaN else if 0 < y then Infinity else NegInfinity)"
| "js_times NegInfinity (Num y) = (if y = 0 then NaN else if 0 < y then NegInfinity else Infinity)"
| "js_times Infinity Infinity = Infinity"
| "js_times Infinity NegInfinity = NegInfinity"
| "js_times NegInfinity Infinity = NegInfinity"
| "js_times NegInfinity NegInfinity = Infinity"

fun js_plus :: "number \<Rightarrow> number \<Rightarrow> number" where
  "js_plus (Num x) (Num y) = round_to_double (x + y)"
| "js_plus NaN _ = NaN"
| "js_plus _ NaN = NaN"
| "js_plus Infinity NegInfinity = NaN"
| "js_plus NegInfinity Infinity = NaN"
| "js_plus Infinity _ = Infinity"
| "js_plus _ Infinity = Infinity"
| "js_plus NegInfinity _ = NegInfinity"
| "js_plus _ NegInfinity = NegInfinity"

text \<open>
  A zero divisor is taken as the positive zero; the one division of the code has a
  truthy divisor.
\<close>

fun js_divide :: "number \<Rightarrow> number \<Rightarrow> number" where
  "js_divide (Num x) (Num y) =
     (if y = 0 then (if x = 0 then NaN else if 0 < x then Infinity else NegInfinity)
      else round_to_double (x / y))"
| "js_divide NaN _ = NaN"
| "js_divide _ NaN = NaN"
| "js_divide (Num x) _ = Num 0"
| "js_divide Infinity (Num y) = (if 0 \<le> y then Infinity else NegInfinity)"
| "js_divide NegInfinity (Num y) = (if 0 \<le> y then NegInfinity else Infinity)"
| "js_divide _ _ = NaN"

section \<open>JavaScript values of the reconciler\<close>

text \<open>
  The external sources deliver JSON. A field of a JSON object either carries a value of
  its documented type or is absent (\<open>undefined\<close>) or \<open>null\<close>; both are \<open>None\<close> here,
  since the code only ever tests such a field for truthiness. A \<open>currencies\<close> that is
  not an array is \<open>None\<close> as well: \<open>extractCurrencyCode\<close> answers \<open>null\<close> for it as
  for an absent one. An element of an array can itself be \<open>null\<close>, and reading a
  property of it throws a \<open>TypeError\<close>: such elements are \<open>None\<close> too, and every
  property read of the source is a branch of the model. Values of another type than the
  documented one (a population that is a string, a currency code that is a number) are
  outside the model. A number of a record is the double that \<open>JSON.parse\<close> made of its
  literal.
\<close>

datatype details = Text string | Fields "(string \<times> string) list"

record js_error =
  err_name :: string
  err_message :: string
  err_statusCode :: "nat option"
  err_details :: "details option"

definition TypeError :: "string \<Rightarrow> js_error" where
  "TypeError prop =
     \<lparr>err_name = ''TypeError'',
      err_message = ''Cannot read properties of null (reading '' @ prop @ '')'',
      err_statusCode = None, err_details = None\<rparr>"

datatype currency = Currency (code: "string option")

record raw_country =
  raw_name :: "string option"
  raw_capital :: "string option"
  raw_region :: "string option"
  raw_population :: "number option"
  raw_currencies :: "currency option list option"
  raw_flag :: "string option"

type_synonym exchange_rates = "string \<Rightarrow> number option"

text \<open>
  What reading a property of the rate table delivers: a number of the table, or what
  every object inherits from \<open>Object.prototype\<close> under that name (a function, and the
  prototype itself for \<open>__proto__\<close>).
\<close>

datatype property = Number number | Inherited

text \<open>
  The fields of a country, with the type of its numbers and of its rate left open: in
  a reconciled record they are JavaScript values, in a row of the table the decimals
  of its columns.
\<close>

record ('n, 'r) country_fields =
  name :: string
  capital :: "string option"
  region :: "string option"
  population :: 'n
  currency_code :: "string option"
  exchange_rate :: "'r option"
  estimated_gdp :: "'n option"
  flag_url :: "string option"

type_synonym country_data = "(number, property) country_fields"

type_synonym country_columns = "(rat, rat) country_fields"

text \<open>
  Truthiness of an optional string, number and property (\<open>!x\<close> is its negation): zero
  and \<open>NaN\<close> are falsy, a function or an object is truthy.
\<close>

fun truthy_str :: "string option \<Rightarrow> bool" where
  "truthy_str None = False"
| "truthy_str (Some s) = (s \<noteq> [])"

fun truthy_num :: "number option \<Rightarrow> bool" where
  "truthy_num None = False"
| "truthy_num (Some (Num x)) = (x \<noteq> 0)"
| "truthy_num (Some NaN) = False"
| "truthy_num (Some Infinity) = True"
| "truthy_num (Some NegInfinity) = True"

fun truthy_property :: "property option \<Rightarrow> bool" where
  "truthy_property None = False"
| "truthy_property (Some (Number n)) = truthy_num (Some n)"
| "truthy_property (Some Inherited) = True"

text \<open>The number an arithmetic operator makes of its operand: \<open>NaN\<close> of a function.\<close>

fun ToNumber :: "property \<Rightarrow> number" where
  "ToNumber (Number n) = n"
| "ToNumber Inherited = NaN"

text \<open>\<open>s || null\<close> on an optional string.\<close>

definition or_null :: "string option \<Rightarrow> string option" where
  "or_null s = (if truthy_str s then s else None)"

section \<open>The source of randomness\<close>

text \<open>
  \<open>Math.random()\<close> is the only effect of the reconciler. The generator is the infinite
  sequence of the values it is going to return, finite doubles from 0 up to but not
  including 1; a call takes the first one and leaves the rest.
\<close>

type_synonym rng = "nat \<Rightarrow> rat"

definition Math_random :: "rng \<Rightarrow> number \<times> rng" where
  "Math_random g = (Num (g 0), \<lambda>n. g (Suc n))"

section \<open>dataProcessor\<close>

text \<open>\<open>extractCurrencyCode\<close>: the code of the first entry only, \<open>null\<close> when it is falsy.\<close>

definition extractCurrencyCode :: "currency option list option \<Rightarrow> js_error + string option" where
  "extractCurrencyCode currencies =
     (case currencies of
        None \<Rightarrow> Inr None
      | Some [] \<Rightarrow> Inr None
      | Some (firstCurrency # _) \<Rightarrow>
          (case firstCurrency of
             None \<Rightarrow> Inl (TypeError ''code'')
           | Some cur \<Rightarrow> Inr (or_null (code cur))))"

definition generateRandomMultiplier :: "rng \<Rightarrow> number \<times> rng" where
  "generateRandomMultiplier g =
     (case Math_random g of
        (r, g') \<Rightarrow> (js_plus (js_times r (Num (2000 - 1000))) (Num 1000), g'))"

text \<open>
  \<open>parseFloat(x.toFixed(2))\<close>. For a magnitude below \<open>10 ^ 21\<close>, \<open>toFixed\<close> takes the
  integer \<open>n\<close> with \<open>n / 100\<close> nearest to the magnitude, the larger one of two, and puts
  the sign back; \<open>parseFloat\<close> rounds that decimal to a double. From \<open>10 ^ 21\<close> on, and
  for \<open>NaN\<close> and the infinities, \<open>toFixed\<close> prints the number as it is and \<open>parseFloat\<close>
  reads the same number back.
\<close>

fun toFixed2 :: "number \<Rightarrow> number" where
  "toFixed2 (Num x) =
     (if 10 ^ 21 \<le> \<bar>x\<bar> then Num x
      else round_to_double
        (if x < 0 then - (of_int \<lfloor>- x * 100 + 1 / 2\<rfloor> / 100)
         else of_int \<lfloor>x * 100 + 1 / 2\<rfloor> / 100))"
| "toFixed2 n = n"

definition calculateEstimatedGDP ::
  "rng \<Rightarrow> number option \<Rightarrow> property option \<Rightarrow> number option \<times> rng" where
  "calculateEstimatedGDP g population' exchangeRate =
     (if \<not> truthy_num population' \<or> \<not> truthy_property exchangeRate then (None, g)
      else
        (case (population', exchangeRate) of
           (Some p, Some r) \<Rightarrow>
             (case generateRandomMultiplier g of
                (multiplier, g') \<Rightarrow>
                  (let gdp = js_divide (js_times p multiplier) (ToNumber r)
                   in (Some (toFixed2 gdp), g')))
         | _ \<Rightarrow> (None, g)))"

text \<open>
  \<open>exchangeRates[currencyCode]\<close>, read only behind \<open>currencyCode &&\<close>. The table is a
  plain object parsed from JSON: a name that is not a key of its own is looked up in
  \<open>Object.prototype\<close>, whose members are all truthy.
\<close>

definition Object_prototype :: "string list" where
  "Object_prototype =
     [''constructor'', ''__defineGetter__'', ''__defineSetter__'', ''hasOwnProperty'',
      ''__lookupGetter__'', ''__lookupSetter__'', ''isPrototypeOf'', ''propertyIsEnumerable'',
      ''toString'', ''valueOf'', ''__proto__'', ''toLocaleString'']"

definition rate_of :: "exchange_rates \<Rightarrow> string option \<Rightarrow> property option" where
  "rate_of exchangeRates currencyCode =
     (case currencyCode of
        None \<Rightarrow> None
      | Some k \<Rightarrow>
          (case exchangeRates k of
             Some rate \<Rightarrow> Some (Number rate)
           | None \<Rightarrow> if k \<in> set Object_prototype then Some Inherited else None))"

text \<open>The function that \<open>processCountryData\<close> maps over the countries.\<close>

definition processCountry ::
  "rng \<Rightarrow> raw_country option \<Rightarrow> exchange_rates \<Rightarrow> js_error + country_data \<times> rng" where
  "processCountry g country exchangeRates =
     (case country of
        None \<Rightarrow> Inl (TypeError ''currencies'')
      | Some c \<Rightarrow>
          (case extractCurrencyCode (raw_currencies c) of
             Inl e \<Rightarrow> Inl e
           | Inr currencyCode \<Rightarrow>
               (case
                  (if truthy_str currencyCode \<and> truthy_property (rate_of exchangeRates currencyCode)
                   then
                     (case calculateEstimatedGDP g (raw_population c)
                             (rate_of exchangeRates currencyCode) of
                        (estimatedGdp, g') \<Rightarrow>
                          (rate_of exchangeRates currencyCode, estimatedGdp, g'))
                   else if truthy_str currencyCode then (None, None, g)
                   else (None, Some (Num 0), g))
                of (exchangeRate, estimatedGdp, g') \<Rightarrow>
                  Inr
                    (\<lparr>name = (case raw_name c of None \<Rightarrow> [] | Some s \<Rightarrow> s),
                      capital = or_null (raw_capital c),
                      region = or_null (raw_region c),
                      population =
                        (case raw_population c of
                           None \<Rightarrow> Num 0
                         | Some p \<Rightarrow> if truthy_num (Some p) then p else Num 0),
                      currency_code = currencyCode,
                      exchange_rate = exchangeRate,
                      estimated_gdp = estimatedGdp,
                      flag_url = or_null (raw_flag c)\<rparr>, g'))))"

fun processCountryData ::
  "rng \<Rightarrow> raw_country option list \<Rightarrow> exchange_rates \<Rightarrow> js_error + country_data list \<times> rng" where
  "processCountryData g [] exchangeRates = Inr ([], g)"
| "processCountryData g (country # countries) exchangeRates =
     (case processCountry g country exchangeRates of
        Inl e \<Rightarrow> Inl e
      | Inr (d, g') \<Rightarrow>
          (case processCountryData g' countries exchangeRates of
             Inl e \<Rightarrow> Inl e
           | Inr (ds, g'') \<Rightarrow> Inr (d # ds, g'')))"

section \<open>externalApi\<close>

text \<open>
  What \<open>axios.get\<close> settles to: a response with its \<open>data\<close>, or a rejection carrying
  the \<open>code\<close> and \<open>message\<close> of the error. A request that runs into the 30 s timeout
  is rejected with code \<open>ECONNABORTED\<close>.
\<close>

datatype 'a axios_result = Response 'a | Rejected "string option" string

definition Error :: "string \<Rightarrow> js_error" where
  "Error msg = \<lparr>err_name = ''Error'', err_message = msg, err_statusCode = None, err_details = None\<rparr>"

definition fetchCountries :: "'a axios_result \<Rightarrow> js_error + 'a" where
  "fetchCountries result =
     (case result of
        Response data \<Rightarrow> Inr data
      | Rejected code' message \<Rightarrow>
          (if code' = Some ''ECONNABORTED'' then Inl (Error ''Countries API request timed out'')
           else Inl (Error (''Could not fetch data from Countries API: '' @ message))))"

text \<open>
  The data of the rate source is \<open>None\<close> when \<open>response.data\<close> or its \<open>rates\<close> is
  missing. The error thrown for that inside the \<open>try\<close> is caught by the function's own
  \<open>catch\<close> and wrapped like any other failure.
\<close>

definition fetchExchangeRates :: "'a option axios_result \<Rightarrow> js_error + 'a" where
  "fetchExchangeRates result =
     (case result of
        Response (Some rates) \<Rightarrow> Inr rates
      | Response None \<Rightarrow>
          Inl (Error (''Could not fetch data from Exchange Rate API: ''
                      @ ''Invalid response format from Exchange Rate API''))
      | Rejected code' message \<Rightarrow>
          (if code' = Some ''ECONNABORTED'' then Inl (Error ''Exchange Rate API request timed out'')
           else Inl (Error (''Could not fetch data from Exchange Rate API: '' @ message))))"

section \<open>errorHandler\<close>

text \<open>\<open>s.includes(p)\<close>: \<open>p\<close> occurs in \<open>s\<close> as a contiguous piece.\<close>

fun str_includes :: "string \<Rightarrow> string \<Rightarrow> bool" where
  "str_includes [] p = (p = [])"
| "str_includes (c # cs) p = (take (length p) (c # cs) = p \<or> str_includes cs p)"

record error_response =
  error :: string
  details :: "details option"

fun truthy_details :: "details option \<Rightarrow> bool" where
  "truthy_details None = False"
| "truthy_details (Some (Text s)) = (s \<noteq> [])"
| "truthy_details (Some (Fields _)) = True"

definition errorHandler :: "js_error \<Rightarrow> nat \<times> error_response" where
  "errorHandler err =
     (if err_statusCode err \<noteq> None \<and> err_statusCode err \<noteq> Some 0 then
        (the (err_statusCode err),
         \<lparr>error = err_message err,
          details = (if truthy_details (err_details err) then err_details err else None)\<rparr>)
      else if err_name err = ''ValidationError'' then
        (400,
         \<lparr>error = ''Validation failed'',
          details = (if truthy_details (err_details err) then err_details err
                     else Some (Fields []))\<rparr>)
      else if err_message err \<noteq> [] \<and> str_includes (err_message err) ''Could not fetch data from'' then
        (503,
         \<lparr>error = ''External data source unavailable'',
          details = Some (Text (err_message err))\<rparr>)
      else (500, \<lparr>error = ''Internal server error'', details = None\<rparr>))"

section \<open>countryService\<close>

text \<open>
  The \<open>countries\<close> table holds the reconciled fields and the columns the engine fills:
  the auto-increment \<open>id\<close> and the two timestamps. A response row is the table row
  without \<open>created_at\<close>.
\<close>

record country_response = "(rat, rat) country_fields" +
  row_id :: nat
  last_refreshed_at :: nat

record country_row = country_response +
  created_at :: nat

record refresh_metadata_row =
  total_countries :: nat
  meta_last_refreshed_at :: "nat option"

text \<open>
  The database: the rows of \<open>countries\<close> in insertion order, the row of
  \<open>refresh_metadata\<close> with \<open>id = 1\<close> when there is one, and the auto-increment counter
  of \<open>countries\<close>, which InnoDB does not wind back when a transaction is rolled back.
\<close>

record database =
  countries :: "country_row list"
  refresh_metadata :: "refresh_metadata_row option"
  auto_increment :: nat

text \<open>
  The storage engine, with its driver, is external. Three things of it enter the
  code's behaviour and are parameters: the weight string of the collation
  \<open>utf8mb4_unicode_ci\<close>, which decides when two names are the same unique key and how
  names order; the statements it rejects (a violated constraint, a value no column
  takes, a lost connection), given the table as the statement finds it; and the
  decimals its columns hold for the values of a statement it accepts.
\<close>

record engine =
  collation :: "string \<Rightarrow> string"
  rejects :: "country_row list \<Rightarrow> country_data \<Rightarrow> js_error option"
  columns :: "country_data \<Rightarrow> country_columns"

text \<open>
  One \<open>INSERT ... ON DUPLICATE KEY UPDATE\<close>: a row with the same name keeps its name,
  \<open>id\<close> and \<open>created_at\<close> and has every other column overwritten; otherwise a new row
  is appended.
\<close>

definition duplicate_key :: "engine \<Rightarrow> country_data \<Rightarrow> country_row \<Rightarrow> bool" where
  "duplicate_key eng country row = (collation eng (name row) = collation eng (name country))"

definition on_duplicate_key_update :: "nat \<Rightarrow> country_columns \<Rightarrow> country_row \<Rightarrow> country_row" where
  "on_duplicate_key_update now country row =
     row\<lparr>capital := capital country,
         region := region country,
         population := population country,
         currency_code := currency_code country,
         exchange_rate := exchange_rate country,
         estimated_gdp := estimated_gdp country,
         flag_url := flag_url country,
         last_refreshed_at := now\<rparr>"

definition insert_row :: "nat \<Rightarrow> nat \<Rightarrow> country_columns \<Rightarrow> country_row" where
  "insert_row now new_id country =
     \<lparr>name = name country,
      capital = capital country,
      region = region country,
      population = population country,
      currency_code = currency_code country,
      exchange_rate = exchange_rate country,
      estimated_gdp = estimated_gdp country,
      flag_url = flag_url country,
      row_id = new_id,
      last_refreshed_at = now,
      created_at = now\<rparr>"

definition upsert_query :: "engine \<Rightarrow> nat \<Rightarrow> database \<Rightarrow> country_data \<Rightarrow> js_error + database" where
  "upsert_query eng now db country =
     (case rejects eng (countries db) country of
        Some e \<Rightarrow> Inl e
      | None \<Rightarrow>
          (if list_ex (duplicate_key eng country) (countries db) then
             Inr (db\<lparr>countries :=
                       map (\<lambda>row. if duplicate_key eng country row
                                   then on_duplicate_key_update now (columns eng country) row
                                   else row)
                         (countries db)\<rparr>)
           else
             Inr (db\<lparr>countries :=
                       countries db @ [insert_row now (auto_increment db) (columns eng country)],
                     auto_increment := Suc (auto_increment db)\<rparr>)))"

text \<open>
  The \<open>for\<close> loop of \<open>bulkUpsertCountries\<close>: it stops at the first statement that
  throws, with the database as the statements before it left it.
\<close>

fun upsert_loop :: "engine \<Rightarrow> nat \<Rightarrow> database \<Rightarrow> country_data list \<Rightarrow> js_error option \<times> database" where
  "upsert_loop eng now db [] = (None, db)"
| "upsert_loop eng now db (country # rest) =
     (case upsert_query eng now db country of
        Inl e \<Rightarrow> (Some e, db)
      | Inr db' \<Rightarrow> upsert_loop eng now db' rest)"

text \<open>
  \<open>beginTransaction\<close> marks the table as it is; \<open>commit\<close> keeps what the loop wrote and
  \<open>rollback\<close> puts the marked table back (the table is InnoDB) and rethrows.
\<close>

definition rollback :: "country_row list \<Rightarrow> database \<Rightarrow> database" where
  "rollback saved db = db\<lparr>countries := saved\<rparr>"

definition bulkUpsertCountries ::
  "engine \<Rightarrow> nat \<Rightarrow> database \<Rightarrow> country_data list \<Rightarrow> (js_error + nat) \<times> database" where
  "bulkUpsertCountries eng now db countries' =
     (let saved = countries db in
      case upsert_loop eng now db countries' of
        (None, db') \<Rightarrow> (Inr (length countries'), db')
      | (Some e, db') \<Rightarrow> (Inl e, rollback saved db'))"

record filters =
  filter_region :: "string option"
  filter_currency :: "string option"

text \<open>
  A DECIMAL column reaches the code as a non-empty string or as NULL, so
  \<open>formatCountryResponse\<close> hands every stored number back as the number it is.
\<close>

definition formatCountryResponse :: "country_row \<Rightarrow> country_response" where
  "formatCountryResponse row =
     \<lparr>name = name row,
      capital = capital row,
      region = region row,
      population = population row,
      currency_code = currency_code row,
      exchange_rate = exchange_rate row,
      estimated_gdp = estimated_gdp row,
      flag_url = flag_url row,
      row_id = row_id row,
      last_refreshed_at = last_refreshed_at row\<rparr>"

text \<open>
  \<open>WHERE\<close> compares text under the collation. \<open>ORDER BY\<close> puts NULL first when
  ascending and last when descending (\<open>None\<close> is the least element of an option).
\<close>

definition where_clause :: "engine \<Rightarrow> filters \<Rightarrow> country_row \<Rightarrow> bool" where
  "where_clause eng f row =
     ((truthy_str (filter_region f) \<longrightarrow>
         map_option (collation eng) (region row) = map_option (collation eng) (filter_region f)) \<and>
      (truthy_str (filter_currency f) \<longrightarrow>
         map_option (collation eng) (currency_code row)
           = map_option (collation eng) (filter_currency f)))"

definition order_by :: "engine \<Rightarrow> string option \<Rightarrow> country_row list \<Rightarrow> country_row list" where
  "order_by eng sort' rows =
     (if sort' = Some ''gdp_desc'' then rev (sort_key estimated_gdp rows)
      else if sort' = Some ''gdp_asc'' then sort_key estimated_gdp rows
      else if sort' = Some ''population_desc'' then rev (sort_key population rows)
      else if sort' = Some ''population_asc'' then sort_key population rows
      else if sort' = Some ''name_asc'' then sort_key (\<lambda>row. collation eng (name row)) rows
      else if sort' = Some ''name_desc'' then rev (sort_key (\<lambda>row. collation eng (name row)) rows)
      else sort_key (\<lambda>row. collation eng (name row)) rows)"

definition getAllCountries :: "engine \<Rightarrow> filters \<Rightarrow> string option \<Rightarrow> database \<Rightarrow> country_response list" where
  "getAllCountries eng f sort' db =
     map formatCountryResponse (order_by eng sort' (filter (where_clause eng f) (countries db)))"

definition updateRefreshMetadata :: "nat \<Rightarrow> database \<Rightarrow> database" where
  "updateRefreshMetadata now db =
     (let totalCountries = length (countries db) in
      db\<lparr>refresh_metadata :=
           map_option
             (\<lambda>row. row\<lparr>meta_last_refreshed_at := Some now, total_countries := totalCountries\<rparr>)
             (refresh_metadata db)\<rparr>)"

definition getRefreshMetadata :: "database \<Rightarrow> refresh_metadata_row" where
  "getRefreshMetadata db =
     (case refresh_metadata db of
        None \<Rightarrow> \<lparr>total_countries = 0, meta_last_refreshed_at = None\<rparr>
      | Some row \<Rightarrow>
          \<lparr>total_countries = total_countries row,
           meta_last_refreshed_at = meta_last_refreshed_at row\<rparr>)"

definition getTopCountriesByGDP :: "nat \<Rightarrow> database \<Rightarrow> (string \<times> rat option \<times> string option) list" where
  "getTopCountriesByGDP limit db =
     map (\<lambda>row. (name row, estimated_gdp row, flag_url row))
       (take limit
          (rev (sort_key estimated_gdp (filter (\<lambda>row. estimated_gdp row \<noteq> None) (countries db)))))"

section \<open>imageGenerator\<close>

text \<open>
  Drawing and encoding the picture are outside the development: the renderer is a
  parameter that turns the summary into the bytes of \<open>summary.png\<close> or throws.
\<close>

record summary =
  summary_total_countries :: nat
  top_countries :: "(string \<times> rat option \<times> string option) list"
  summary_last_refreshed_at :: "nat option"

type_synonym renderer = "summary \<Rightarrow> js_error + string"

section \<open>countryController\<close>

text \<open>
  The world a refresh acts on: the database and the file \<open>cache/summary.png\<close>. What
  the outside supplies to one call is its environment: how the two requests settle, the
  values \<open>Math.random\<close> is going to return, the storage engine, the time and the renderer.
\<close>

record world =
  db :: database
  summary_png :: "string option"

datatype settled = CountriesFirst | RatesFirst

record environment =
  countries_api :: "raw_country option list axios_result"
  rates_api :: "exchange_rates option axios_result"
  first_settled :: settled
  random :: rng
  storage :: engine
  clock :: nat
  render :: renderer

text \<open>
  \<open>Promise.all\<close> of the two fetches: both values, or the rejection that came first.
  The fetches touch nothing of the world.
\<close>

definition Promise_all :: "settled \<Rightarrow> js_error + 'a \<Rightarrow> js_error + 'b \<Rightarrow> js_error + 'a \<times> 'b" where
  "Promise_all first a b =
     (case (a, b) of
        (Inr x, Inr y) \<Rightarrow> Inr (x, y)
      | (Inl e, Inr _) \<Rightarrow> Inl e
      | (Inr _, Inl e) \<Rightarrow> Inl e
      | (Inl e1, Inl e2) \<Rightarrow> Inl (if first = CountriesFirst then e1 else e2))"

definition generateSummaryImage :: "renderer \<Rightarrow> summary \<Rightarrow> world \<Rightarrow> (js_error + string) \<times> world" where
  "generateSummaryImage r data w =
     (case r data of
        Inl e \<Rightarrow> (Inl e, w)
      | Inr png \<Rightarrow> (Inr ''summary.png'', w\<lparr>summary_png := Some png\<rparr>))"

record refresh_response =
  message :: string
  countries_processed :: nat
  response_last_refreshed_at :: "nat option"

text \<open>
  \<open>refreshCountries\<close>: \<open>Inr\<close> is the body given to \<open>res.json\<close>, \<open>Inl\<close> the error given to
  \<open>next\<close>, whatever statement of the \<open>try\<close> block threw it.
\<close>

definition refreshCountries :: "environment \<Rightarrow> world \<Rightarrow> (js_error + refresh_response) \<times> world" where
  "refreshCountries env w =
     (case Promise_all (first_settled env)
             (fetchCountries (countries_api env)) (fetchExchangeRates (rates_api env)) of
        Inl e \<Rightarrow> (Inl e, w)
      | Inr (countries', exchangeRates) \<Rightarrow>
          (case processCountryData (random env) countries' exchangeRates of
             Inl e \<Rightarrow> (Inl e, w)
           | Inr (processedCountries, g') \<Rightarrow>
               (case bulkUpsertCountries (storage env) (clock env) (db w) processedCountries of
                  (Inl e, db1) \<Rightarrow> (Inl e, w\<lparr>db := db1\<rparr>)
                | (Inr count, db1) \<Rightarrow>
                    (let db2 = updateRefreshMetadata (clock env) db1;
                         metadata = getRefreshMetadata db2;
                         topCountries = getTopCountriesByGDP 5 db2;
                         w2 = w\<lparr>db := db2\<rparr>
                     in case generateSummaryImage (render env)
                               \<lparr>summary_total_countries = total_countries metadata,
                                top_countries = topCountries,
                                summary_last_refreshed_at = meta_last_refreshed_at metadata\<rparr> w2 of
                          (Inl e, w3) \<Rightarrow> (Inl e, w3)
                        | (Inr _, w3) \<Rightarrow>
                            (Inr \<lparr>message = ''Countries data refreshed successfully'',
                                  countries_processed = count,
                                  response_last_refreshed_at = meta_last_refreshed_at metadata\<rparr>,
                             w3)))))"

text \<open>The HTTP answer to \<open>POST /countries/refresh\<close>: status and body.\<close>

datatype body = Refreshed refresh_response | Failed error_response

definition respond :: "js_error + refresh_response \<Rightarrow> nat \<times> body" where
  "respond outcome =
     (case outcome of
        Inr r \<Rightarrow> (200, Refreshed r)
      | Inl err \<Rightarrow> (case errorHandler err of (statusCode, errorResponse) \<Rightarrow> (statusCode, Failed errorResponse)))"

section \<open>Example data\<close>

definition nigeria :: raw_country where
  "nigeria =
     \<lparr>raw_name = Some ''Nigeria'', raw_capital = Some ''Abuja'', raw_region = Some ''Africa'',
      raw_population = Some (Num 206139589),
      raw_currencies = Some [Some (Currency (Some ''NGN''))], raw_flag = None\<rparr>"

definition atlantis :: raw_country where
  "atlantis =
     \<lparr>raw_name = Some ''Atlantis'', raw_capital = None, raw_region = None,
      raw_population = Some (Num 1000), raw_currencies = Some [], raw_flag = None\<rparr>"

definition bouvet :: raw_country where
  "bouvet =
     \<lparr>raw_name = Some ''Bouvet Island'', raw_capital = None, raw_region = None,
      raw_population = Some (Num 0),
      raw_currencies = Some [Some (Currency (Some ''NOK''))], raw_flag = None\<rparr>"

definition heard :: raw_country where
  "heard =
     \<lparr>raw_name = Some ''Heard Island'', raw_capital = None, raw_region = None,
      raw_population = Some (Num 0),
      raw_currencies = Some [Some (Currency (Some ''NGN''))], raw_flag = None\<rparr>"

definition tiny :: raw_country where
  "tiny =
     \<lparr>raw_name = Some ''Tiny'', raw_capital = None, raw_region = None,
      raw_population = Some (Num 1),
      raw_currencies = Some [Some (Currency (Some ''XYZ''))], raw_flag = None\<rparr>"

definition utopia :: raw_country where
  "utopia =
     \<lparr>raw_name = Some ''Utopia'', raw_capital = None, raw_region = None,
      raw_population = Some (Num 42),
      raw_currencies = Some [Some (Currency (Some ''UTO''))], raw_flag = None\<rparr>"

definition blank :: raw_country where
  "blank =
     \<lparr>raw_name = Some ''Blank'', raw_capital = None, raw_region = None,
      raw_population = Some (Num 9),
      raw_currencies = Some [Some (Currency (Some []))], raw_flag = None\<rparr>"

definition builder :: raw_country where
  "builder =
     \<lparr>raw_name = Some ''Builder'', raw_capital = None, raw_region = None,
      raw_population = Some (Num 9),
      raw_currencies = Some [Some (Currency (Some ''constructor''))], raw_flag = None\<rparr>"

definition nameless :: raw_country where
  "nameless =
     \<lparr>raw_name = Some ''Nameless'', raw_capital = None, raw_region = None,
      raw_population = Some (Num 7),
      raw_currencies = Some [Some (Currency None), Some (Currency (Some ''NGN''))],
      raw_flag = None\<rparr>"

definition broken :: raw_country where
  "broken =
     \<lparr>raw_name = Some ''Broken'', raw_capital = None, raw_region = None,
      raw_population = Some (Num 5), raw_currencies = Some [None], raw_flag = None\<rparr>"

definition bare :: raw_country where
  "bare =
     \<lparr>raw_name = Some ''Bare'', raw_capital = Some [], raw_region = None,
      raw_population = None, raw_currencies = None, raw_flag = None\<rparr>"

definition rates0 :: exchange_rates where
  "rates0 = [''NGN'' \<mapsto> Num (6401 / 4), ''NOK'' \<mapsto> Num 10, ''XYZ'' \<mapsto> Num 3]"

definition half :: rng where
  "half = (\<lambda>_. 1 / 2)"

definition lowest :: rng where
  "lowest = (\<lambda>_. 0)"

text \<open>
  An engine in strict mode, as far as the column \<open>currency_code VARCHAR(10)\<close> goes,
  that takes finite numbers only and stores them as they are.
\<close>

fun decimal :: "number \<Rightarrow> rat option" where
  "decimal (Num x) = Some x"
| "decimal _ = None"

fun decimal_rate :: "property \<Rightarrow> rat option" where
  "decimal_rate (Number n) = decimal n"
| "decimal_rate Inherited = None"

definition storable :: "country_data \<Rightarrow> bool" where
  "storable country =
     (decimal (population country) \<noteq> None \<and>
      (case exchange_rate country of None \<Rightarrow> True | Some r \<Rightarrow> decimal_rate r \<noteq> None) \<and>
      (case estimated_gdp country of None \<Rightarrow> True | Some n \<Rightarrow> decimal n \<noteq> None))"

definition strict :: engine where
  "strict =
     \<lparr>collation = (\<lambda>s. s),
      rejects = (\<lambda>rows country.
        if \<not> storable country then Some (Error ''Incorrect decimal value'')
        else
          (case currency_code country of
             None \<Rightarrow> None
           | Some k \<Rightarrow> if 10 < length k then Some (Error ''Data too long for column currency_code'')
                       else None)),
      columns = (\<lambda>country.
        \<lparr>name = name country,
         capital = capital country,
         region = region country,
         population = (case decimal (population country) of None \<Rightarrow> 0 | Some x \<Rightarrow> x),
         currency_code = currency_code country,
         exchange_rate = Option.bind (exchange_rate country) decimal_rate,
         estimated_gdp = Option.bind (estimated_gdp country) decimal,
         flag_url = flag_url country\<rparr>)\<rparr>"

definition lagos_row :: country_row where
  "lagos_row =
     \<lparr>name = ''Nigeria'', capital = Some ''Lagos'', region = Some ''Africa'', population = 100,
      currency_code = Some ''NGN'', exchange_rate = Some 1500, estimated_gdp = Some 99,
      flag_url = None, row_id = 1, last_refreshed_at = 3, created_at = 3\<rparr>"

definition db0 :: database where
  "db0 =
     \<lparr>countries = [lagos_row],
      refresh_metadata = Some \<lparr>total_countries = 1, meta_last_refreshed_at = Some 3\<rparr>,
      auto_increment = 2\<rparr>"

definition atlantis_data :: country_data where
  "atlantis_data =
     \<lparr>name = ''Atlantis'', capital = None, region = None, population = Num 1000,
      currency_code = None, exchange_rate = None, estimated_gdp = Some (Num 0),
      flag_url = None\<rparr>"

definition atlantis_row :: country_row where
  "atlantis_row =
     \<lparr>name = ''Atlantis'', capital = None, region = None, population = 1000,
      currency_code = None, exchange_rate = None, estimated_gdp = Some 0,
      flag_url = None, row_id = 2, last_refreshed_at = 7, created_at = 7\<rparr>"

definition overlong_data :: country_data where
  "overlong_data =
     \<lparr>name = ''Overlong'', capital = None, region = None, population = Num 1,
      currency_code = Some ''ABCDEFGHIJK'', exchange_rate = None, estimated_gdp = None,
      flag_url = None\<rparr>"

definition world0 :: world where
  "world0 = \<lparr>db = db0, summary_png = None\<rparr>"

definition env0 :: environment where
  "env0 =
     \<lparr>countries_api = Response [Some atlantis],
      rates_api = Response (Some rates0),
      first_settled = CountriesFirst,
      random = half,
      storage = strict,
      clock = 7,
      render = (\<lambda>data. Inr ''PNG'')\<rparr>"

section \<open>The reconciler, record by record\<close>

lemma extractCurrencyCode_truthy:
  "extractCurrencyCode currencies = Inr (Some k) \<Longrightarrow> k \<noteq> []"
  by (auto simp: extractCurrencyCode_def or_null_def
      split: option.splits list.splits if_splits)

text \<open>
  C2. A record whose \<open>currencies\<close> is absent or empty is reconciled without error to a
  draft with \<open>currency_code = null\<close>, \<open>exchange_rate = null\<close> and \<open>estimated_gdp = 0\<close>;
  no random number is drawn.
\<close>

theorem no_currencies_zero_gdp:
  assumes "raw_currencies c = None \<or> raw_currencies c = Some []"
  shows "\<exists>d. processCountry g (Some c) exchangeRates = Inr (d, g) \<and>
           currency_code d = None \<and> exchange_rate d = None \<and> estimated_gdp d = Some (Num 0)"
  using assms by (auto simp: processCountry_def extractCurrencyCode_def rate_of_def)

theorem no_currencies_zero_gdp_witness:
  "raw_currencies atlantis = Some [] \<and>
   (\<exists>d. processCountry half (Some atlantis) rates0 = Inr (d, half) \<and>
      currency_code d = None \<and> exchange_rate d = None \<and> estimated_gdp d = Some (Num 0))"
proof -
  have h: "raw_currencies atlantis = None \<or> raw_currencies atlantis = Some []"
    by (simp add: atlantis_def)
  show ?thesis
    using no_currencies_zero_gdp [OF h, of half rates0] by (simp add: atlantis_def)
qed

text \<open>
  C10. When the first entry of \<open>currencies\<close> has no code, or a falsy one, the draft is
  that of a country without currency, whatever the later entries are.
\<close>

theorem first_entry_without_code:
  assumes "raw_currencies c = Some (Some cur # rest)" and "\<not> truthy_str (code cur)"
  shows "\<exists>d. processCountry g (Some c) exchangeRates = Inr (d, g) \<and>
           currency_code d = None \<and> exchange_rate d = None \<and> estimated_gdp d = Some (Num 0)"
  using assms
  by (simp add: processCountry_def extractCurrencyCode_def or_null_def rate_of_def)

theorem first_entry_without_code_witness:
  "raw_currencies nameless = Some [Some (Currency None), Some (Currency (Some ''NGN''))] \<and>
   \<not> truthy_str (code (Currency None)) \<and> rates0 ''NGN'' = Some (Num (6401 / 4)) \<and>
   (\<exists>d. processCountry half (Some nameless) rates0 = Inr (d, half) \<and>
      currency_code d = None \<and> exchange_rate d = None \<and> estimated_gdp d = Some (Num 0))"
proof -
  have h1: "raw_currencies nameless = Some (Some (Currency None) # [Some (Currency (Some ''NGN''))])"
    by (simp add: nameless_def)
  have h2: "\<not> truthy_str (code (Currency None))" by simp
  show ?thesis
    using first_entry_without_code [OF h1 h2, of half rates0] h1
    by (simp add: rates0_def)
qed

text \<open>
  C4, as the specification has it: a non-null first code that is not a key of the rate
  table gives \<open>exchange_rate = null\<close> and \<open>estimated_gdp = null\<close>. It fails twice. The
  empty string is a non-null code and a key of no table, and it is falsy: the record is
  reconciled as one without currency, with \<open>estimated_gdp = 0\<close>. The code
  \<open>constructor\<close> is no key of the table either, and \<open>exchangeRates[currencyCode]\<close>
  finds the function every object inherits under that name: \<open>exchange_rate\<close> is that
  function and \<open>estimated_gdp\<close> is \<open>NaN\<close>.
\<close>

theorem unknown_code_counterexample:
  "rates0 [] = None \<and>
   map_sum id fst (processCountry half (Some blank) rates0) =
     Inr \<lparr>name = ''Blank'', capital = None, region = None, population = Num 9,
          currency_code = None, exchange_rate = None, estimated_gdp = Some (Num 0),
          flag_url = None\<rparr> \<and>
   rates0 ''constructor'' = None \<and>
   map_sum id fst (processCountry half (Some builder) rates0) =
     Inr \<lparr>name = ''Builder'', capital = None, region = None, population = Num 9,
          currency_code = Some ''constructor'', exchange_rate = Some Inherited,
          estimated_gdp = Some NaN, flag_url = None\<rparr>"
  by code_simp

text \<open>
  C4, amended. When the first entry of \<open>currencies\<close> has a non-empty code that is
  neither a key of the rate table nor the name of a member of \<open>Object.prototype\<close>, the
  draft has both \<open>exchange_rate = null\<close> and \<open>estimated_gdp = null\<close>, and no random
  number is drawn.
\<close>

theorem unknown_code_both_null:
  assumes "raw_currencies c = Some (Some cur # rest)" and "code cur = Some k" and "k \<noteq> []"
    and "exchangeRates k = None" and "k \<notin> set Object_prototype"
  shows "\<exists>d. processCountry g (Some c) exchangeRates = Inr (d, g) \<and>
           currency_code d = Some k \<and> exchange_rate d = None \<and> estimated_gdp d = None"
  using assms
  by (simp add: processCountry_def extractCurrencyCode_def or_null_def rate_of_def)

theorem unknown_code_both_null_witness:
  "raw_currencies utopia = Some [Some (Currency (Some ''UTO''))] \<and>
   rates0 ''UTO'' = None \<and> ''UTO'' \<notin> set Object_prototype \<and>
   (\<exists>d. processCountry half (Some utopia) rates0 = Inr (d, half) \<and>
      currency_code d = Some ''UTO'' \<and> exchange_rate d = None \<and> estimated_gdp d = None)"
proof -
  have h1: "raw_currencies utopia = Some (Some (Currency (Some ''UTO'')) # [])"
    by (simp add: utopia_def)
  have h2: "code (Currency (Some ''UTO'')) = Some ''UTO''" by simp
  have h3: "''UTO'' \<noteq> []" by simp
  have h4: "rates0 ''UTO'' = None" by (simp add: rates0_def)
  have h5: "''UTO'' \<notin> set Object_prototype" by (simp add: Object_prototype_def)
  show ?thesis
    using unknown_code_both_null [where c = utopia and cur = "Currency (Some ''UTO'')"
        and rest = "[]" and k = "''UTO''" and exchangeRates = rates0 and g = half]
      h1 h2 h3 h4 h5
    by simp
qed

text \<open>
  C1, as the specification has it: population 0 with a code the table knows gives
  \<open>estimated_gdp = 0\<close>. It fails: Bouvet Island, population 0, currency NOK at rate 10,
  gets \<open>estimated_gdp = null\<close>.
\<close>

theorem zero_population_counterexample:
  "raw_population bouvet = Some (Num 0) \<and> rates0 ''NOK'' = Some (Num 10) \<and>
   map_sum id fst (processCountry half (Some bouvet) rates0) =
     Inr \<lparr>name = ''Bouvet Island'', capital = None, region = None, population = Num 0,
          currency_code = Some ''NOK'', exchange_rate = Some (Number (Num 10)),
          estimated_gdp = None, flag_url = None\<rparr>"
  by (simp add: processCountry_def bouvet_def rates0_def extractCurrencyCode_def or_null_def
      rate_of_def calculateEstimatedGDP_def)

text \<open>
  C1, amended. \<open>calculateEstimatedGDP\<close> returns \<open>null\<close> for a falsy population: when the
  extracted code is a key of the rate table and the population is 0, the draft has
  \<open>estimated_gdp = null\<close>, and no random number is drawn.
\<close>

theorem zero_population_null_gdp:
  assumes "extractCurrencyCode (raw_currencies c) = Inr (Some k)"
    and "exchangeRates k = Some r" and "raw_population c = Some (Num 0)"
  shows "\<exists>d. processCountry g (Some c) exchangeRates = Inr (d, g) \<and>
           currency_code d = Some k \<and> estimated_gdp d = None"
proof -
  have "k \<noteq> []" using assms(1) by (rule extractCurrencyCode_truthy)
  then show ?thesis
    using assms by (simp add: processCountry_def rate_of_def calculateEstimatedGDP_def)
qed

theorem zero_population_null_gdp_witness:
  "extractCurrencyCode (raw_currencies heard) = Inr (Some ''NGN'') \<and>
   rates0 ''NGN'' = Some (Num (6401 / 4)) \<and> raw_population heard = Some (Num 0) \<and>
   (\<exists>d. processCountry half (Some heard) rates0 = Inr (d, half) \<and>
      currency_code d = Some ''NGN'' \<and> estimated_gdp d = None)"
proof -
  have h1: "extractCurrencyCode (raw_currencies heard) = Inr (Some ''NGN'')"
    by (simp add: heard_def extractCurrencyCode_def or_null_def)
  have h2: "rates0 ''NGN'' = Some (Num (6401 / 4))" by (simp add: rates0_def)
  have h3: "raw_population heard = Some (Num 0)" by (simp add: heard_def)
  show ?thesis
    using zero_population_null_gdp [where c = heard and k = "''NGN''" and exchangeRates = rates0
        and r = "Num (6401 / 4)" and g = half] h1 h2 h3
    by simp
qed

section \<open>Rounding to a double\<close>

lemma pow2_less_cancel: "(2::rat) powi m < 2 powi n \<Longrightarrow> m < n"
proof (rule ccontr)
  assume a: "(2::rat) powi m < 2 powi n" and "\<not> m < n"
  then have "n \<le> m" by simp
  then have "(2::rat) powi n \<le> 2 powi m" by (rule power_int_increasing) simp
  with a show False by simp
qed

lemma pow2_mono: "m \<le> n \<Longrightarrow> (2::rat) powi m \<le> 2 powi n"
  by (rule power_int_increasing) simp_all

lemma pow2_strict_mono: "m < n \<Longrightarrow> (2::rat) powi m < 2 powi n"
  by (rule power_int_strict_increasing) simp_all

text \<open>\<open>ilog2\<close> is the binary exponent: it brackets a positive number between two powers of 2.\<close>

lemma ilog2_bounds:
  assumes "0 < a"
  shows "2 powi (ilog2 a) \<le> a" and "a < 2 powi (ilog2 a + 1)"
proof -
  have both: "2 powi (ilog2 a) \<le> a \<and> a < 2 powi (ilog2 a + 1)"
  proof (cases "1 \<le> a")
    case True
    define n where "n = \<lfloor>a\<rfloor>"
    have n: "0 < n" using True by (simp add: n_def)
    from bitlen_bounds [OF n] have b1: "2 ^ nat (bitlen n - 1) \<le> n" and b2: "n < 2 ^ nat (bitlen n)"
      by auto
    have ge: "1 \<le> bitlen n" using n by (simp add: bitlen_alt_def)
    have e: "ilog2 a = bitlen n - 1" using True by (simp add: ilog2_def n_def)
    have "(2::rat) powi (bitlen n - 1) = 2 ^ nat (bitlen n - 1)"
      using ge by (simp add: power_int_def)
    also have "\<dots> = of_int (2 ^ nat (bitlen n - 1))" by simp
    also have "\<dots> \<le> of_int n" using b1 by (simp only: of_int_le_iff)
    also have "\<dots> \<le> a" by (simp add: n_def)
    finally have lo: "2 powi (ilog2 a) \<le> a" by (simp add: e)
    have "n + 1 \<le> 2 ^ nat (bitlen n)" using b2 by simp
    then have "(of_int (n + 1) :: rat) \<le> of_int (2 ^ nat (bitlen n))" by (simp only: of_int_le_iff)
    moreover have "a < of_int (n + 1)" unfolding n_def by linarith
    ultimately have "a < of_int (2 ^ nat (bitlen n))" by simp
    also have "\<dots> = (2::rat) powi (bitlen n)" using ge by (simp add: power_int_def)
    finally have hi: "a < 2 powi (ilog2 a + 1)" by (simp add: e)
    from lo hi show ?thesis by simp
  next
    case False
    define b where "b = 1 / a"
    define n where "n = \<lfloor>b\<rfloor>"
    define k where "k = bitlen n - 1"
    have b: "1 < b" using False assms by (simp add: b_def)
    have n: "0 < n" using b by (simp add: n_def)
    from bitlen_bounds [OF n] have b1: "2 ^ nat (bitlen n - 1) \<le> n" and b2: "n < 2 ^ nat (bitlen n)"
      by auto
    have ge: "1 \<le> bitlen n" using n by (simp add: bitlen_alt_def)
    have k0: "0 \<le> k" using ge by (simp add: k_def)
    have "(2::rat) powi k = of_int (2 ^ nat k)" using k0 by (simp add: power_int_def)
    also have "\<dots> \<le> of_int n" using b1 by (simp only: of_int_le_iff k_def)
    also have "\<dots> \<le> b" by (simp add: n_def)
    finally have lo: "2 powi k \<le> b" .
    have "n + 1 \<le> 2 ^ nat (bitlen n)" using b2 by simp
    then have "(of_int (n + 1) :: rat) \<le> of_int (2 ^ nat (bitlen n))" by (simp only: of_int_le_iff)
    moreover have "b < of_int (n + 1)" unfolding n_def by linarith
    ultimately have "b < of_int (2 ^ nat (bitlen n))" by simp
    also have "\<dots> = (2::rat) powi (k + 1)" using ge by (simp add: power_int_def k_def)
    finally have hi: "b < 2 powi (k + 1)" .
    have a: "a = 1 / b" using assms by (simp add: b_def)
    have bpos: "0 < b" using b by simp
    show ?thesis
    proof (cases "b = 2 powi k")
      case True
      then have e: "ilog2 a = - k" using False by (simp add: ilog2_def b_def n_def k_def Let_def)
      have ak: "a = 2 powi (- k)" using True a by (simp add: power_int_minus_divide)
      have "(2::rat) powi (- k) < 2 powi (- k + 1)" by (rule pow2_strict_mono) simp
      then have "2 powi (- k) \<le> a \<and> a < 2 powi (- k + 1)" unfolding ak by simp
      then show ?thesis unfolding e .
    next
      case ne: False
      then have e: "ilog2 a = - k - 1" using False by (simp add: ilog2_def b_def n_def k_def Let_def)
      have "2 powi k < b" using lo ne by simp
      then have "1 / b < 1 / 2 powi k" using bpos by (simp add: field_simps)
      then have up: "a < 2 powi (- k)" using a by (simp add: power_int_minus_divide)
      have "1 / 2 powi (k + 1) < 1 / b" using hi bpos by (simp add: field_simps)
      then have dn: "2 powi (- k - 1) < a" using a by (simp add: power_int_minus_divide [symmetric])
      show ?thesis using up dn by (simp add: e)
    qed
  qed
  from both show "2 powi (ilog2 a) \<le> a" and "a < 2 powi (ilog2 a + 1)" by simp_all
qed

lemma ilog2_less:
  assumes "0 < a" and "a < 2 powi n"
  shows "ilog2 a < n"
proof -
  have "(2::rat) powi (ilog2 a) < 2 powi n" using ilog2_bounds(1) [OF assms(1)] assms(2) by simp
  then show ?thesis by (rule pow2_less_cancel)
qed

lemma ilog2_ge:
  assumes "2 powi n \<le> a"
  shows "n \<le> ilog2 a"
proof -
  have pos: "0 < a" using assms by (rule less_le_trans [rotated]) simp
  have "(2::rat) powi n < 2 powi (ilog2 a + 1)" using ilog2_bounds(2) [OF pos] assms by simp
  then have "n < ilog2 a + 1" by (rule pow2_less_cancel)
  then show ?thesis by simp
qed

lemma round_even_near: "\<bar>of_int (round_even y) - y\<bar> \<le> 1 / 2"
proof -
  have "of_int \<lfloor>y\<rfloor> \<le> y" "y < of_int \<lfloor>y\<rfloor> + 1" by linarith+
  then show ?thesis unfolding round_even_def Let_def by auto
qed

lemma round_even_le: "y \<le> of_int N \<Longrightarrow> round_even y \<le> N"
proof -
  assume a: "y \<le> of_int N"
  have f: "\<lfloor>y\<rfloor> \<le> N" using a by linarith
  show ?thesis
  proof (cases "\<lfloor>y\<rfloor> = N")
    case True
    then have "y = of_int N" using a by linarith
    then show ?thesis by (simp add: round_even_def)
  next
    case False
    then have "\<lfloor>y\<rfloor> + 1 \<le> N" using f by simp
    then show ?thesis by (auto simp: round_even_def Let_def)
  qed
qed

lemma round_even_ge: "of_int N \<le> y \<Longrightarrow> N \<le> round_even y"
proof -
  assume a: "of_int N \<le> y"
  then have "N \<le> \<lfloor>y\<rfloor>" by (simp add: le_floor_iff)
  then show ?thesis by (auto simp: round_even_def Let_def)
qed

lemma round_to_double_pos:
  fixes x ulp y :: rat
  assumes "0 < x" and "ulp = 2 powi (max (ilog2 x) (- 1022) - 52)"
    and "y = of_int (round_even (x / ulp)) * ulp"
  shows "round_to_double x = (if y \<noteq> 0 \<and> 1024 \<le> ilog2 y then Infinity else Num y)"
  using assms(1) unfolding round_to_double_def Let_def assms(2,3) by simp

text \<open>
  Rounding does not step over a number of the grid it rounds to: a bound that is a
  multiple of the spacing at \<open>x\<close> also bounds the double nearest to \<open>x\<close>.
\<close>

lemma round_to_double_below:
  assumes "0 < x" and "x \<le> c" and "c < 2 powi 1024"
    and "c = of_int K * 2 powi (max (ilog2 x) (- 1022) - 52)"
  shows "\<exists>z. round_to_double x = Num z \<and> 0 \<le> z \<and> z \<le> c"
proof -
  define ulp :: rat where "ulp = 2 powi (max (ilog2 x) (- 1022) - 52)"
  define n where "n = round_even (x / ulp)"
  define y :: rat where "y = of_int n * ulp"
  have ulp: "0 < ulp" by (simp add: ulp_def)
  have c: "c = of_int K * ulp" using assms(4) by (simp add: ulp_def)
  have "x / ulp \<le> of_int K" using assms(2) ulp c by (simp add: field_simps)
  then have nK: "n \<le> K" unfolding n_def by (rule round_even_le)
  have "of_int 0 \<le> x / ulp" using assms(1) ulp by simp
  then have n0: "0 \<le> n" unfolding n_def by (rule round_even_ge)
  have y0: "0 \<le> y" using n0 ulp by (simp add: y_def)
  have "of_int n * ulp \<le> of_int K * ulp" using nK ulp by (simp add: mult_right_mono)
  then have yc: "y \<le> c" by (simp add: y_def c)
  have fin: "\<not> (y \<noteq> 0 \<and> 1024 \<le> ilog2 y)"
  proof
    assume a: "y \<noteq> 0 \<and> 1024 \<le> ilog2 y"
    then have "0 < y" using y0 by simp
    moreover have "y < 2 powi 1024" using yc assms(3) by simp
    ultimately have "ilog2 y < 1024" by (rule ilog2_less)
    with a show False by simp
  qed
  have "round_to_double x = Num y"
    using fin round_to_double_pos [OF assms(1) ulp_def, of y] by (simp add: y_def n_def)
  then show ?thesis using y0 yc by simp
qed

lemma round_to_double_above:
  assumes "0 < x" and "c \<le> x"
    and "c = of_int K * 2 powi (max (ilog2 x) (- 1022) - 52)"
    and "round_to_double x = Num z"
  shows "c \<le> z"
proof -
  define ulp :: rat where "ulp = 2 powi (max (ilog2 x) (- 1022) - 52)"
  define n where "n = round_even (x / ulp)"
  define y :: rat where "y = of_int n * ulp"
  have ulp: "0 < ulp" by (simp add: ulp_def)
  have c: "c = of_int K * ulp" using assms(3) by (simp add: ulp_def)
  have "of_int K \<le> x / ulp" using assms(2) ulp c by (simp add: field_simps)
  then have nK: "K \<le> n" unfolding n_def by (rule round_even_ge)
  have "of_int K * ulp \<le> of_int n * ulp" using nK ulp by (simp add: mult_right_mono)
  then have yc: "c \<le> y" by (simp add: y_def c)
  have "Num z = Num y"
    using assms(4) round_to_double_pos [OF assms(1) ulp_def, of y]
    by (simp add: y_def n_def split: if_splits)
  then show ?thesis using yc by simp
qed

text \<open>
  In the normal range the double nearest to \<open>x\<close> is finite and differs from \<open>x\<close> by
  at most \<open>x \<times> 2 ^ - 53\<close>.
\<close>

lemma round_to_double_normal:
  assumes "0 < x" and "- 1022 \<le> ilog2 x" and "ilog2 x \<le> 1022"
  shows "\<exists>z. round_to_double x = Num z \<and> 0 < z \<and> \<bar>z - x\<bar> \<le> x * 2 powi (- 53)"
proof -
  define e where "e = ilog2 x"
  define ulp :: rat where "ulp = 2 powi (e - 52)"
  define n where "n = round_even (x / ulp)"
  define y :: rat where "y = of_int n * ulp"
  have m: "max (ilog2 x) (- 1022) = e" using assms(2) by (simp add: e_def)
  have ulp: "0 < ulp" by (simp add: ulp_def)
  have lo: "2 powi e \<le> x" and hi: "x < 2 powi (e + 1)"
    using ilog2_bounds [OF assms(1)] by (simp_all add: e_def)
  have "(2::rat) powi ((e - 52) + 52) = 2 powi (e - 52) * 2 powi 52"
    by (rule power_int_add) simp
  then have pe: "(2::rat) powi e = ulp * 2 powi 52" by (simp add: ulp_def)
  have "(2::rat) powi ((e - 52) + 53) = 2 powi (e - 52) * 2 powi 53"
    by (rule power_int_add) simp
  then have pe1: "(2::rat) powi (e + 1) = ulp * 2 powi 53" by (simp add: ulp_def add.commute)
  have "of_int (2 ^ 52) \<le> x / ulp" using lo ulp unfolding pe by (simp add: field_simps)
  then have n_lo: "2 ^ 52 \<le> n" unfolding n_def by (rule round_even_ge)
  have "x / ulp \<le> of_int (2 ^ 53)" using hi ulp unfolding pe1 by (simp add: field_simps)
  then have n_hi: "n \<le> 2 ^ 53" unfolding n_def by (rule round_even_le)
  have ypos: "0 < y" using n_lo ulp by (simp add: y_def)
  have "of_int n * ulp \<le> of_int (2 ^ 53) * ulp" using n_hi ulp by (intro mult_right_mono) simp_all
  then have "y \<le> 2 powi (e + 1)" unfolding pe1 y_def by (simp add: mult.commute)
  also have "\<dots> \<le> 2 powi 1023" using assms(3) by (intro pow2_mono) (simp add: e_def)
  also have "\<dots> < (2::rat) powi 1024" by (rule pow2_strict_mono) simp
  finally have "ilog2 y < 1024" using ypos by (intro ilog2_less)
  then have fin: "\<not> (y \<noteq> 0 \<and> 1024 \<le> ilog2 y)" by simp
  have ulp': "ulp = 2 powi (max (ilog2 x) (- 1022) - 52)" by (simp add: ulp_def m)
  have r: "round_to_double x = Num y"
    using fin round_to_double_pos [OF assms(1) ulp', of y] by (simp add: y_def n_def)
  have near: "\<bar>of_int n - x / ulp\<bar> \<le> 1 / 2" unfolding n_def by (rule round_even_near)
  have "y - x = (of_int n - x / ulp) * ulp" using ulp by (simp add: y_def field_simps)
  then have "\<bar>y - x\<bar> = \<bar>of_int n - x / ulp\<bar> * ulp" using ulp by (simp add: abs_mult)
  also have "\<dots> \<le> 1 / 2 * ulp" using near ulp by (intro mult_right_mono) simp_all
  finally have "\<bar>y - x\<bar> \<le> ulp / 2" by simp
  also have "ulp / 2 = 2 powi e * 2 powi (- 53)"
    unfolding pe by simp
  also have "\<dots> \<le> x * 2 powi (- 53)" using lo by (intro mult_right_mono) simp_all
  finally show ?thesis using r ypos by simp
qed

section \<open>The estimate\<close>

lemma grid_multiple:
  assumes "e \<le> j"
  shows "(of_int (A * 2 ^ nat (j - e)) :: rat) * 2 powi (e - 52) = of_int A * 2 powi (j - 52)"
proof -
  have "(2::rat) powi ((j - e) + (e - 52)) = 2 powi (j - e) * 2 powi (e - 52)"
    by (rule power_int_add) simp
  then have "(2::rat) powi (j - 52) = 2 powi (j - e) * 2 powi (e - 52)" by simp
  moreover have "(2::rat) powi (j - e) = 2 ^ nat (j - e)"
    using assms by (simp add: power_int_def)
  ultimately show ?thesis by simp
qed

lemma thousand_below_overflow: "(2000::rat) < 2 powi 1024"
proof -
  have "(2000::rat) < 2 powi 11" by simp
  also have "\<dots> \<le> 2 powi 1024" by (rule pow2_mono) simp
  finally show ?thesis .
qed

text \<open>
  The multiplier: \<open>Math.random() * 1000\<close> stays within 0 and 1000 after rounding, and
  adding 1000 gives a double within 1000 and 2000; the upper end is reached when the
  sum rounds up.
\<close>

lemma random_times_thousand:
  assumes "0 \<le> r" and "r < 1"
  shows "\<exists>t. round_to_double (r * 1000) = Num t \<and> 0 \<le> t \<and> t \<le> 1000"
proof (cases "r = 0")
  case True
  then show ?thesis by (simp add: round_to_double_def)
next
  case False
  define x where "x = r * 1000"
  define e where "e = max (ilog2 x) (- 1022)"
  have x: "0 < x" "x \<le> 1000" using assms False by (simp_all add: x_def)
  have "x < 2 powi 10" using assms by (simp add: x_def)
  then have "ilog2 x < 10" using x(1) by (intro ilog2_less)
  then have e: "e \<le> 55" by (simp add: e_def)
  have "(of_int (125 * 2 ^ nat (55 - e)) :: rat) * 2 powi (e - 52) = of_int 125 * 2 powi (55 - 52)"
    using e by (rule grid_multiple)
  then have g: "(1000::rat) = of_int (125 * 2 ^ nat (55 - e)) * 2 powi (max (ilog2 x) (- 1022) - 52)"
    by (simp add: e_def)
  have "(1000::rat) < 2 powi 1024" using thousand_below_overflow by simp
  from round_to_double_below [OF x(1) x(2) this g] show ?thesis by (simp add: x_def)
qed

lemma plus_thousand:
  assumes "0 \<le> t" and "t \<le> 1000"
  shows "\<exists>m. round_to_double (t + 1000) = Num m \<and> 1000 \<le> m \<and> m \<le> 2000"
proof -
  define x where "x = t + 1000"
  define e where "e = ilog2 x"
  have x: "0 < x" "1000 \<le> x" "x \<le> 2000" using assms by (simp_all add: x_def)
  have "2 powi 9 \<le> x" using x(2) by simp
  then have e9: "9 \<le> e" unfolding e_def by (rule ilog2_ge)
  have "x < 2 powi 11" using x(3) by simp
  then have e10: "e < 11" unfolding e_def using x(1) by (intro ilog2_less)
  have m: "max (ilog2 x) (- 1022) = e" using e9 by (simp add: e_def)
  have "(of_int (125 * 2 ^ nat (56 - e)) :: rat) * 2 powi (e - 52) = of_int 125 * 2 powi (56 - 52)"
    using e10 by (intro grid_multiple) simp
  then have g2: "(2000::rat) = of_int (125 * 2 ^ nat (56 - e)) * 2 powi (max (ilog2 x) (- 1022) - 52)"
    by (simp add: m)
  have "(of_int (125 * 2 ^ nat (55 - e)) :: rat) * 2 powi (e - 52) = of_int 125 * 2 powi (55 - 52)"
    using e10 by (intro grid_multiple) simp
  then have g1: "(1000::rat) = of_int (125 * 2 ^ nat (55 - e)) * 2 powi (max (ilog2 x) (- 1022) - 52)"
    by (simp add: m)
  from round_to_double_below [OF x(1) x(3) thousand_below_overflow g2]
  obtain m where r: "round_to_double x = Num m" and hi: "m \<le> 2000" by blast
  from round_to_double_above [OF x(1) x(2) g1 r] have lo: "1000 \<le> m" .
  show ?thesis using r lo hi by (simp add: x_def)
qed

lemma generateRandomMultiplier_range:
  assumes "0 \<le> g 0" and "g 0 < 1"
  shows "\<exists>m. generateRandomMultiplier g = (Num m, snd (Math_random g)) \<and> 1000 \<le> m \<and> m \<le> 2000"
proof -
  from random_times_thousand [OF assms] obtain t where
    t: "round_to_double (g 0 * 1000) = Num t" "0 \<le> t" "t \<le> 1000" by blast
  from plus_thousand [OF t(2,3)] obtain m where
    m: "round_to_double (t + 1000) = Num m" "1000 \<le> m" "m \<le> 2000" by blast
  show ?thesis using t(1) m
    by (simp add: generateRandomMultiplier_def Math_random_def)
qed

lemma round_half_up_near:
  fixes y :: rat
  shows "\<bar>of_int \<lfloor>y * 100 + 1 / 2\<rfloor> / 100 - y\<bar> \<le> 1 / 200"
proof -
  define n :: rat where "n = of_int \<lfloor>y * 100 + 1 / 2\<rfloor>"
  have "n \<le> y * 100 + 1 / 2" unfolding n_def by (rule of_int_floor_le)
  moreover have "y * 100 + 1 / 2 < n + 1" unfolding n_def by linarith
  ultimately have "\<bar>n / 100 - y\<bar> \<le> 1 / 200" by linarith
  then show ?thesis unfolding n_def .
qed

lemma round_to_double_between:
  assumes "2 powi lo \<le> x" and "x < 2 powi hi" and "- 1022 \<le> lo" and "hi \<le> 1023"
  shows "\<exists>z. round_to_double x = Num z \<and> 0 < z \<and>
           x * (1 - 1 / 2 ^ 53) \<le> z \<and> z \<le> x * (1 + 1 / 2 ^ 53)"
proof -
  have pos: "0 < x" using assms(1) by (rule less_le_trans [rotated]) simp
  have "lo \<le> ilog2 x" using assms(1) by (rule ilog2_ge)
  then have a: "- 1022 \<le> ilog2 x" using assms(3) by simp
  have "ilog2 x < hi" using pos assms(2) by (rule ilog2_less)
  then have b: "ilog2 x \<le> 1022" using assms(4) by simp
  from round_to_double_normal [OF pos a b] obtain z where
    z: "round_to_double x = Num z" "0 < z" "\<bar>z - x\<bar> \<le> x * 2 powi (- 53)" by blast
  have "x * 2 powi (- 53) = x * (1 / 2 ^ 53)" by simp
  with z(3) have "\<bar>z - x\<bar> \<le> x * (1 / 2 ^ 53)" by simp
  then have "z - x \<le> x * (1 / 2 ^ 53)" and "- (z - x) \<le> x * (1 / 2 ^ 53)"
    by (simp_all only: abs_le_iff)
  then have "x * (1 - 1 / 2 ^ 53) \<le> z \<and> z \<le> x * (1 + 1 / 2 ^ 53)"
    by (simp only: algebra_simps) linarith
  with z(1,2) show ?thesis by blast
qed

lemma times_in_range:
  fixes P m :: rat
  assumes "2 powi (- 100) \<le> P" and "P \<le> 2 powi 100" and "1000 \<le> m" and "m \<le> 2000"
  shows "2 powi (- 100) \<le> P * m" and "P * m < 2 powi 111"
proof -
  have P0: "0 < P" using assms(1) by (rule less_le_trans [rotated]) simp
  have "P * 1 \<le> P * m" using assms(3) P0 by (intro mult_left_mono) simp_all
  then have "P \<le> P * m" by simp
  with assms(1) show "2 powi (- 100) \<le> P * m" by (rule order_trans)
  have "P * m \<le> 2 powi 100 * 2000"
    using assms(2,4) P0 assms(3) by (intro mult_mono) simp_all
  also have "\<dots> < 2 powi 100 * 2 powi 11" by simp
  also have "\<dots> = (2::rat) powi 111" by simp
  finally show "P * m < 2 powi 111" .
qed

lemma quotient_in_range:
  fixes pm R :: rat
  assumes "2 powi (- 101) \<le> pm" and "pm < 2 powi 112"
    and "2 powi (- 100) \<le> R" and "R \<le> 2 powi 100"
  shows "2 powi (- 201) \<le> pm / R" and "pm / R < 2 powi 212"
proof -
  have R0: "0 < R" using assms(3) by (rule less_le_trans [rotated]) simp
  have pm0: "0 < pm" using assms(1) by (rule less_le_trans [rotated]) simp
  have "2 powi (- 101) / 2 powi 100 \<le> pm / R"
    using assms(1,4) R0 by (intro frac_le) simp_all
  moreover have "(2::rat) powi (- 101) / 2 powi 100 = 2 powi (- 201)" by simp
  ultimately show "2 powi (- 201) \<le> pm / R" by simp
  have "pm / R \<le> pm / 2 powi (- 100)"
    using assms(3) pm0 by (intro divide_left_mono) simp_all
  also have "\<dots> < 2 powi 112 / 2 powi (- 100)"
    using assms(2) by (intro divide_strict_right_mono) simp_all
  also have "\<dots> = (2::rat) powi 212" by simp
  finally show "pm / R < 2 powi 212" .
qed

text \<open>
  The estimate for a multiplier between 1000 and 2000: the product, the quotient and
  the decimal read back by \<open>parseFloat\<close> are each rounded once, \<open>toFixed\<close> moves the
  quotient by at most half a cent.
\<close>

lemma estimate_bounds:
  fixes P R m :: rat
  assumes "2 powi (- 100) \<le> P" and "P \<le> 2 powi 100"
    and "2 powi (- 100) \<le> R" and "R \<le> 2 powi 100"
    and "1000 \<le> m" and "m \<le> 2000"
  shows "\<exists>x. toFixed2 (js_divide (js_times (Num P) (Num m)) (Num R)) = Num x \<and>
           P * 1000 / R * (1 - 1 / 2 ^ 50) - 1 / 100 \<le> x \<and>
           x \<le> P * 2000 / R * (1 + 1 / 2 ^ 50) + 1 / 100"
proof -
  have P0: "0 < P" using assms(1) by (rule less_le_trans [rotated]) simp
  have R0: "0 < R" using assms(3) by (rule less_le_trans [rotated]) simp
  define x1 where "x1 = P * m"
  have x1: "2 powi (- 100) \<le> x1" "x1 < 2 powi 111"
    using times_in_range [OF assms(1,2,5,6)] by (simp_all add: x1_def)
  from round_to_double_between [OF x1] obtain pm where
    pm: "round_to_double x1 = Num pm" "0 < pm"
        "x1 * (1 - 1 / 2 ^ 53) \<le> pm" "pm \<le> x1 * (1 + 1 / 2 ^ 53)"
    by auto
  have x1pos: "0 < x1" using x1(1) by (rule less_le_trans [rotated]) simp
  have "2 powi (- 100) * (1 / 2) \<le> x1 * (1 - 1 / 2 ^ 53)"
    using x1(1) x1pos by (intro mult_mono) simp_all
  then have pm_lo: "2 powi (- 101) \<le> pm" using pm(3) by simp
  have "x1 * (1 + 1 / 2 ^ 53) \<le> x1 * 2" using x1pos by (intro mult_left_mono) simp_all
  also have "\<dots> < 2 powi 111 * 2" using x1(2) by simp
  also have "\<dots> = (2::rat) powi 112" by simp
  finally have pm_hi: "pm < 2 powi 112" using pm(4) by simp
  define x2 where "x2 = pm / R"
  have x2: "2 powi (- 201) \<le> x2" "x2 < 2 powi 212"
    using quotient_in_range [OF pm_lo pm_hi assms(3,4)] by (simp_all add: x2_def)
  from round_to_double_between [OF x2] obtain q where
    q: "round_to_double x2 = Num q" "0 < q"
       "x2 * (1 - 1 / 2 ^ 53) \<le> q" "q \<le> x2 * (1 + 1 / 2 ^ 53)"
    by auto
  have run: "js_divide (js_times (Num P) (Num m)) (Num R) = Num q"
    using pm(1) q(1) R0 by (simp add: x1_def x2_def)
  define X where "X = x1 / R"
  define lo where "lo = P * 1000 / R"
  define hi where "hi = P * 2000 / R"
  have lo0: "0 < lo" using P0 R0 by (simp add: lo_def)
  have "P * 1000 \<le> P * m" using assms(5) P0 by (intro mult_left_mono) simp_all
  then have loX: "lo \<le> X" using R0 by (simp add: lo_def X_def x1_def divide_right_mono)
  have "P * m \<le> P * 2000" using assms(6) P0 by (intro mult_left_mono) simp_all
  then have Xhi: "X \<le> hi" using R0 by (simp add: hi_def X_def x1_def divide_right_mono)
  have "x1 * (1 - 1 / 2 ^ 53) / R \<le> pm / R" using pm(3) R0 by (intro divide_right_mono) simp_all
  then have x2_lo: "X * (1 - 1 / 2 ^ 53) \<le> x2" by (simp add: X_def x2_def)
  have "pm / R \<le> x1 * (1 + 1 / 2 ^ 53) / R" using pm(4) R0 by (intro divide_right_mono) simp_all
  then have x2_hi: "x2 \<le> X * (1 + 1 / 2 ^ 53)" by (simp add: X_def x2_def)
  have q_lo: "lo * (1 - 1 / 2 ^ 53) * (1 - 1 / 2 ^ 53) \<le> q"
    using q(3) x2_lo loX lo0 by (simp; linarith)
  have q_hi: "q \<le> hi * (1 + 1 / 2 ^ 53) * (1 + 1 / 2 ^ 53)"
    using q(4) x2_hi Xhi lo0 loX by (simp; linarith)
  show ?thesis
  proof (cases "10 ^ 21 \<le> q")
    case True
    then have "toFixed2 (Num q) = Num q" using q(2) by simp
    moreover have "lo * (1 - 1 / 2 ^ 50) - 1 / 100 \<le> q" using q_lo lo0 by (simp; linarith)
    moreover have "q \<le> hi * (1 + 1 / 2 ^ 50) + 1 / 100" using q_hi lo0 loX Xhi by (simp; linarith)
    ultimately show ?thesis unfolding run lo_def hi_def by blast
  next
    case False
    define t :: rat where "t = of_int \<lfloor>q * 100 + 1 / 2\<rfloor> / 100"
    have tf: "toFixed2 (Num q) = round_to_double t" using False q(2) by (simp add: t_def)
    have near: "\<bar>t - q\<bar> \<le> 1 / 200" unfolding t_def by (rule round_half_up_near)
    have t0: "0 \<le> t" using q(2) by (simp add: t_def)
    show ?thesis
    proof (cases "t = 0")
      case True
      then have "toFixed2 (Num q) = Num 0" using tf by (simp add: round_to_double_def)
      moreover have "lo * (1 - 1 / 2 ^ 50) - 1 / 100 \<le> 0"
        using q_lo near True lo0 by (simp; linarith)
      moreover have "0 \<le> hi * (1 + 1 / 2 ^ 50) + 1 / 100" using lo0 loX Xhi by (simp; linarith)
      ultimately show ?thesis unfolding run lo_def hi_def by blast
    next
      case nz: False
      have "0 < \<lfloor>q * 100 + 1 / 2\<rfloor>" using nz t0 by (simp add: t_def; linarith)
      then have "1 \<le> \<lfloor>q * 100 + 1 / 2\<rfloor>" by simp
      then have "(1::rat) \<le> of_int \<lfloor>q * 100 + 1 / 2\<rfloor>" by (simp only: of_int_1_le_iff)
      then have t_ge: "1 / 100 \<le> t" by (simp add: t_def)
      have "2 powi (- 7) \<le> (1 / 100 :: rat)" by simp
      then have t_lo: "2 powi (- 7) \<le> t" using t_ge by (rule order_trans)
      have "t < 10 ^ 21 + 1" using near False by linarith
      also have "\<dots> < (2::rat) powi 70" by simp
      finally have t_hi: "t < 2 powi 70" .
      from round_to_double_between [OF t_lo t_hi] obtain z where
        z: "round_to_double t = Num z" "t * (1 - 1 / 2 ^ 53) \<le> z" "z \<le> t * (1 + 1 / 2 ^ 53)"
        by auto
      have "toFixed2 (Num q) = Num z" using tf z(1) by simp
      moreover have "lo * (1 - 1 / 2 ^ 50) - 1 / 100 \<le> z"
        using z(2) near q_lo lo0 by (simp; linarith)
      moreover have "z \<le> hi * (1 + 1 / 2 ^ 50) + 1 / 100"
        using z(3) near q_hi lo0 loX Xhi by (simp; linarith)
      ultimately show ?thesis unfolding run lo_def hi_def by blast
    qed
  qed
qed

text \<open>With \<open>Math.random() = 1 - 2 ^ - 53\<close> the multiplier is 2000.\<close>

lemma multiplier_reaches_2000:
  "fst (generateRandomMultiplier (\<lambda>_. 1 - 1 / 2 ^ 53)) = Num 2000"
  by code_simp

text \<open>The double nearest to 1.005 lies below it, and so the estimate is 1.00, not 1.01.\<close>

lemma estimate_rounds_the_double:
  "toFixed2 (js_divide (js_times (Num 67) (Num 1500)) (Num 100000)) = Num 1"
  by code_simp

text \<open>
  C3, as the specification has it: the estimate lies in \<open>[P \<times> 1000 / R, P \<times> 2000 / R]\<close>.
  It fails: population 1 at rate 3 with \<open>Math.random() = 0\<close> has the multiplier 1000,
  the quotient is the double nearest to \<open>1000 / 3\<close>, \<open>toFixed(2)\<close> prints \<open>333.33\<close>,
  and the estimate is the double nearest to 333.33, below \<open>1000 / 3\<close>.
\<close>

theorem estimate_interval_counterexample:
  "raw_population tiny = Some (Num 1) \<and> rates0 ''XYZ'' = Some (Num 3) \<and>
   fst (generateRandomMultiplier lowest) = Num 1000 \<and>
   map_sum id fst (processCountry lowest (Some tiny) rates0) =
     Inr \<lparr>name = ''Tiny'', capital = None, region = None, population = Num 1,
          currency_code = Some ''XYZ'', exchange_rate = Some (Number (Num 3)),
          estimated_gdp = Some (Num (5864003374185185 / 17592186044416)), flag_url = None\<rparr> \<and>
   \<bar>5864003374185185 / 17592186044416 - 33333 / 100\<bar> < (1 / 10 ^ 12 :: rat) \<and>
   \<not> (1 * 1000 / 3 \<le> (5864003374185185 / 17592186044416 :: rat))"
proof -
  have m: "generateRandomMultiplier lowest = (Num 1000, lowest)"
    by (simp add: generateRandomMultiplier_def Math_random_def lowest_def round_to_double_def)
       code_simp
  have e: "toFixed2 (js_divide (js_times (Num 1) (Num 1000)) (Num 3))
             = Num (5864003374185185 / 17592186044416)"
    by code_simp
  show ?thesis
    using e
    by (simp add: m processCountry_def tiny_def rates0_def extractCurrencyCode_def or_null_def
        rate_of_def calculateEstimatedGDP_def del: toFixed2.simps js_divide.simps js_times.simps)
qed

text \<open>
  C3, amended. For a population \<open>P\<close> and a rate \<open>R\<close> between \<open>2 ^ - 100\<close> and
  \<open>2 ^ 100\<close>, the rate being that of the first currency code, the draft carries the
  rate, and its estimate is \<open>parseFloat((P * m / R).toFixed(2))\<close>, computed on doubles,
  for the multiplier \<open>m\<close> drawn from \<open>[1000, 2000]\<close>. Every operation rounds, so the
  estimate leaves \<open>[P \<times> 1000 / R, P \<times> 2000 / R]\<close> by no more than the factor
  \<open>1 \<plusminus> 2 ^ - 50\<close> and one cent. One random number is consumed.
\<close>

theorem estimate_within_rounding:
  assumes "raw_currencies c = Some (Some cur # rest)" and "code cur = Some k" and "k \<noteq> []"
    and "exchangeRates k = Some (Num R)" and "1 / 2 ^ 100 \<le> R" and "R \<le> 2 ^ 100"
    and "raw_population c = Some (Num P)" and "1 / 2 ^ 100 \<le> P" and "P \<le> 2 ^ 100"
    and "0 \<le> g 0" and "g 0 < 1"
  shows "\<exists>d m x. processCountry g (Some c) exchangeRates = Inr (d, snd (Math_random g)) \<and>
           fst (generateRandomMultiplier g) = Num m \<and> 1000 \<le> m \<and> m \<le> 2000 \<and>
           exchange_rate d = Some (Number (Num R)) \<and>
           estimated_gdp d = Some (toFixed2 (js_divide (js_times (Num P) (Num m)) (Num R))) \<and>
           estimated_gdp d = Some (Num x) \<and>
           P * 1000 / R * (1 - 1 / 2 ^ 50) - 1 / 100 \<le> x \<and>
           x \<le> P * 2000 / R * (1 + 1 / 2 ^ 50) + 1 / 100"
proof -
  from generateRandomMultiplier_range [of g] assms(10,11) obtain m where
    m: "generateRandomMultiplier g = (Num m, snd (Math_random g))" "1000 \<le> m" "m \<le> 2000"
    by blast
  have P: "2 powi (- 100) \<le> P" "P \<le> 2 powi 100" using assms(8,9) by simp_all
  have R: "2 powi (- 100) \<le> R" "R \<le> 2 powi 100" using assms(5,6) by simp_all
  from estimate_bounds [OF P R m(2,3)] obtain x where
    x: "toFixed2 (js_divide (js_times (Num P) (Num m)) (Num R)) = Num x"
       "P * 1000 / R * (1 - 1 / 2 ^ 50) - 1 / 100 \<le> x"
       "x \<le> P * 2000 / R * (1 + 1 / 2 ^ 50) + 1 / 100"
    by blast
  have P0: "P \<noteq> 0" using assms(8) by auto
  have R0: "R \<noteq> 0" using assms(5) by auto
  have run: "processCountry g (Some c) exchangeRates =
      Inr (\<lparr>name = (case raw_name c of None \<Rightarrow> [] | Some s \<Rightarrow> s),
            capital = or_null (raw_capital c), region = or_null (raw_region c),
            population = Num P, currency_code = Some k, exchange_rate = Some (Number (Num R)),
            estimated_gdp = Some (toFixed2 (js_divide (js_times (Num P) (Num m)) (Num R))),
            flag_url = or_null (raw_flag c)\<rparr>,
           snd (Math_random g))"
    using assms(1-4,7) P0 R0
    by (simp add: processCountry_def extractCurrencyCode_def or_null_def rate_of_def
        calculateEstimatedGDP_def m(1) del: toFixed2.simps js_divide.simps js_times.simps)
  show ?thesis
    using run m x by (simp del: toFixed2.simps js_divide.simps js_times.simps)
qed

theorem estimate_within_rounding_witness:
  "raw_currencies nigeria = Some [Some (Currency (Some ''NGN''))] \<and>
   rates0 ''NGN'' = Some (Num (6401 / 4)) \<and> raw_population nigeria = Some (Num 206139589) \<and>
   (0::rat) \<le> half 0 \<and> half 0 < 1 \<and>
   (\<exists>d m x. processCountry half (Some nigeria) rates0 = Inr (d, snd (Math_random half)) \<and>
      fst (generateRandomMultiplier half) = Num m \<and> 1000 \<le> m \<and> m \<le> 2000 \<and>
      exchange_rate d = Some (Number (Num (6401 / 4))) \<and>
      estimated_gdp d
        = Some (toFixed2 (js_divide (js_times (Num 206139589) (Num m)) (Num (6401 / 4)))) \<and>
      estimated_gdp d = Some (Num x) \<and>
      206139589 * 1000 / (6401 / 4) * (1 - 1 / 2 ^ 50) - 1 / 100 \<le> x \<and>
      x \<le> 206139589 * 2000 / (6401 / 4) * (1 + 1 / 2 ^ 50) + 1 / 100)"
proof -
  have h1: "raw_currencies nigeria = Some (Some (Currency (Some ''NGN'')) # [])"
    by (simp add: nigeria_def)
  have h2: "code (Currency (Some ''NGN'')) = Some ''NGN''" by simp
  have h3: "''NGN'' \<noteq> []" by simp
  have h4: "rates0 ''NGN'' = Some (Num (6401 / 4))" by (simp add: rates0_def)
  have h5: "1 / 2 ^ 100 \<le> (6401 / 4 :: rat)" by simp
  have h6: "(6401 / 4 :: rat) \<le> 2 ^ 100" by simp
  have h7: "raw_population nigeria = Some (Num 206139589)" by (simp add: nigeria_def)
  have h8: "1 / 2 ^ 100 \<le> (206139589 :: rat)" by simp
  have h9: "(206139589 :: rat) \<le> 2 ^ 100" by simp
  have h10: "0 \<le> half 0" by (simp add: half_def)
  have h11: "half 0 < 1" by (simp add: half_def)
  from estimate_within_rounding [where c = nigeria and cur = "Currency (Some ''NGN'')"
      and rest = "[]" and k = "''NGN''" and exchangeRates = rates0 and R = "6401 / 4"
      and P = 206139589 and g = half, OF h1 h2 h3 h4 h5 h6 h7 h8 h9 h10 h11]
  obtain d m x where
    "processCountry half (Some nigeria) rates0 = Inr (d, snd (Math_random half))"
    "fst (generateRandomMultiplier half) = Num m" "1000 \<le> m" "m \<le> 2000"
    "exchange_rate d = Some (Number (Num (6401 / 4)))"
    "estimated_gdp d
       = Some (toFixed2 (js_divide (js_times (Num 206139589) (Num m)) (Num (6401 / 4))))"
    "estimated_gdp d = Some (Num x)"
    "206139589 * 1000 / (6401 / 4) * (1 - 1 / 2 ^ 50) - 1 / 100 \<le> x"
    "x \<le> 206139589 * 2000 / (6401 / 4) * (1 + 1 / 2 ^ 50) + 1 / 100"
    by blast
  then have "\<exists>d m x. processCountry half (Some nigeria) rates0 = Inr (d, snd (Math_random half)) \<and>
      fst (generateRandomMultiplier half) = Num m \<and> 1000 \<le> m \<and> m \<le> 2000 \<and>
      exchange_rate d = Some (Number (Num (6401 / 4))) \<and>
      estimated_gdp d
        = Some (toFixed2 (js_divide (js_times (Num 206139589) (Num m)) (Num (6401 / 4)))) \<and>
      estimated_gdp d = Some (Num x) \<and>
      206139589 * 1000 / (6401 / 4) * (1 - 1 / 2 ^ 50) - 1 / 100 \<le> x \<and>
      x \<le> 206139589 * 2000 / (6401 / 4) * (1 + 1 / 2 ^ 50) + 1 / 100"
    by blast
  then show ?thesis using h4 h7 h10 h11 by (simp only: nigeria_def raw_country.simps)
qed

section \<open>The reconciler on a batch\<close>

lemma processCountry_defaults:
  assumes "\<forall>rest. raw_currencies c \<noteq> Some (None # rest)"
  shows "\<exists>d g'. processCountry g (Some c) exchangeRates = Inr (d, g') \<and>
           name d = (case raw_name c of None \<Rightarrow> [] | Some s \<Rightarrow> s) \<and>
           capital d = or_null (raw_capital c) \<and> region d = or_null (raw_region c) \<and>
           flag_url d = or_null (raw_flag c) \<and>
           population d =
             (case raw_population c of
                None \<Rightarrow> Num 0
              | Some p \<Rightarrow> if truthy_num (Some p) then p else Num 0)"
proof -
  have "\<exists>k. extractCurrencyCode (raw_currencies c) = Inr k"
    using assms by (auto simp: extractCurrencyCode_def split: option.splits list.splits)
  then obtain k where k: "extractCurrencyCode (raw_currencies c) = Inr k" ..
  show ?thesis by (simp add: processCountry_def k split: prod.splits)
qed

lemma processCountryData_nth:
  "processCountryData g cs exchangeRates = Inr (ds, g') \<Longrightarrow>
     length ds = length cs \<and>
     (\<forall>i < length cs. \<exists>gi gi'. processCountry gi (cs ! i) exchangeRates = Inr (ds ! i, gi'))"
proof (induction cs arbitrary: g ds)
  case Nil
  then show ?case by simp
next
  case (Cons country cs)
  from Cons.prems obtain d g1 ds' where
    d: "processCountry g country exchangeRates = Inr (d, g1)"
    and r: "processCountryData g1 cs exchangeRates = Inr (ds', g')" and e: "ds = d # ds'"
    by (auto split: sum.splits prod.splits)
  from Cons.IH [OF r] have ih: "length ds' = length cs"
    "\<forall>i < length cs. \<exists>gi gi'. processCountry gi (cs ! i) exchangeRates = Inr (ds' ! i, gi')"
    by auto
  show ?case
  proof (intro conjI allI impI)
    show "length ds = length (country # cs)" using e ih(1) by simp
  next
    fix i assume "i < length (country # cs)"
    then show "\<exists>gi gi'. processCountry gi ((country # cs) ! i) exchangeRates = Inr (ds ! i, gi')"
      using d e ih(2) by (cases i) auto
  qed
qed

lemma processCountry_raises:
  assumes "country = None \<or> (\<exists>c rest. country = Some c \<and> raw_currencies c = Some (None # rest))"
  shows "\<exists>e. processCountry g country exchangeRates = Inl e"
  using assms by (auto simp: processCountry_def extractCurrencyCode_def)

lemma processCountry_error_name:
  "processCountry g country exchangeRates = Inl e \<Longrightarrow> err_name e = ''TypeError''"
  by (auto simp: processCountry_def extractCurrencyCode_def TypeError_def
      split: option.splits list.splits sum.splits prod.splits if_splits)

lemma processCountryData_raises:
  assumes "\<exists>country \<in> set cs.
             country = None \<or> (\<exists>c rest. country = Some c \<and> raw_currencies c = Some (None # rest))"
  shows "\<exists>e. processCountryData g cs exchangeRates = Inl e \<and> err_name e = ''TypeError''"
  using assms
proof (induction cs arbitrary: g)
  case Nil
  then show ?case by simp
next
  case (Cons country cs)
  show ?case
  proof (cases "processCountry g country exchangeRates")
    case (Inl e)
    then show ?thesis using processCountry_error_name [OF Inl] by simp
  next
    case (Inr r)
    obtain d g1 where r: "r = (d, g1)" by (cases r)
    have "\<not> (country = None \<or>
              (\<exists>c rest. country = Some c \<and> raw_currencies c = Some (None # rest)))"
    proof
      assume "country = None \<or>
              (\<exists>c rest. country = Some c \<and> raw_currencies c = Some (None # rest))"
      from processCountry_raises [OF this, of g exchangeRates] Inr show False by simp
    qed
    with Cons.prems have "\<exists>country \<in> set cs.
        country = None \<or> (\<exists>c rest. country = Some c \<and> raw_currencies c = Some (None # rest))"
      by auto
    from Cons.IH [OF this, of g1] obtain e where
      "processCountryData g1 cs exchangeRates = Inl e" "err_name e = ''TypeError''"
      by blast
    then show ?thesis using Inr r by simp
  qed
qed

lemma processCountryData_defaults:
  assumes "\<forall>country \<in> set cs. \<exists>c. country = Some c \<and>
             (\<forall>rest. raw_currencies c \<noteq> Some (None # rest))"
  shows "\<exists>ds g'. processCountryData g cs exchangeRates = Inr (ds, g') \<and>
           list_all2
             (\<lambda>country d. \<exists>c. country = Some c \<and>
                name d = (case raw_name c of None \<Rightarrow> [] | Some s \<Rightarrow> s) \<and>
                capital d = or_null (raw_capital c) \<and>
                region d = or_null (raw_region c) \<and>
                flag_url d = or_null (raw_flag c) \<and>
                population d =
                  (case raw_population c of
                     None \<Rightarrow> Num 0
                   | Some p \<Rightarrow> if truthy_num (Some p) then p else Num 0))
             cs ds"
  using assms
proof (induction cs arbitrary: g)
  case Nil
  then show ?case by simp
next
  case (Cons country cs)
  from Cons.prems obtain c where c: "country = Some c"
    and ok: "\<forall>rest. raw_currencies c \<noteq> Some (None # rest)"
    by auto
  from processCountry_defaults [OF ok, of g exchangeRates] obtain d g1 where
    d: "processCountry g (Some c) exchangeRates = Inr (d, g1)"
       "name d = (case raw_name c of None \<Rightarrow> [] | Some s \<Rightarrow> s)"
       "capital d = or_null (raw_capital c)" "region d = or_null (raw_region c)"
       "flag_url d = or_null (raw_flag c)"
       "population d =
                  (case raw_population c of
                     None \<Rightarrow> Num 0
                   | Some p \<Rightarrow> if truthy_num (Some p) then p else Num 0)"
    by blast
  from Cons.IH [of g1] Cons.prems obtain ds g2 where
    ds: "processCountryData g1 cs exchangeRates = Inr (ds, g2)"
        "list_all2
           (\<lambda>country d. \<exists>c. country = Some c \<and>
              name d = (case raw_name c of None \<Rightarrow> [] | Some s \<Rightarrow> s) \<and>
              capital d = or_null (raw_capital c) \<and>
              region d = or_null (raw_region c) \<and>
              flag_url d = or_null (raw_flag c) \<and>
              population d =
                  (case raw_population c of
                     None \<Rightarrow> Num 0
                   | Some p \<Rightarrow> if truthy_num (Some p) then p else Num 0))
           cs ds"
    by auto
  show ?case using c d ds by simp
qed

text \<open>
  C9, as the specification has it: the reconciler never raises, and a bad record never
  stops the rest. It fails: a record whose \<open>currencies\<close> is \<open>[null]\<close> makes
  \<open>extractCurrencyCode\<close> read \<open>code\<close> of \<open>null\<close>, and the \<open>TypeError\<close> ends the whole
  \<open>map\<close>, the records before and after it included.
\<close>

theorem reconciler_raises_counterexample:
  "processCountryData half [Some atlantis, Some broken, Some nigeria] rates0
     = Inl (TypeError ''code'')"
  by (simp add: processCountry_def atlantis_def broken_def extractCurrencyCode_def)

text \<open>
  C9, amended. On a sequence whose records are objects, none with a \<open>null\<close> first entry
  of \<open>currencies\<close>, the reconciler raises nothing and yields one draft per record, in
  order; a missing or empty name becomes the empty string, a missing or empty capital,
  region and flag become \<open>null\<close>, and a missing population becomes 0. On a sequence
  with a \<open>null\<close> record, or a record whose \<open>currencies\<close> starts with \<open>null\<close>, the
  reconciler raises a \<open>TypeError\<close> and yields no draft at all.
\<close>

theorem reconciler_total_unless_null:
  "((\<forall>country \<in> set cs. \<exists>c. country = Some c \<and>
        (\<forall>rest. raw_currencies c \<noteq> Some (None # rest))) \<longrightarrow>
    (\<exists>ds g'. processCountryData g cs exchangeRates = Inr (ds, g') \<and>
       list_all2
         (\<lambda>country d. \<exists>c. country = Some c \<and>
            name d = (case raw_name c of None \<Rightarrow> [] | Some s \<Rightarrow> s) \<and>
            capital d = or_null (raw_capital c) \<and>
            region d = or_null (raw_region c) \<and>
            flag_url d = or_null (raw_flag c) \<and>
            population d =
                  (case raw_population c of
                     None \<Rightarrow> Num 0
                   | Some p \<Rightarrow> if truthy_num (Some p) then p else Num 0))
         cs ds)) \<and>
   ((\<exists>country \<in> set cs.
        country = None \<or> (\<exists>c rest. country = Some c \<and> raw_currencies c = Some (None # rest))) \<longrightarrow>
    (\<exists>e. processCountryData g cs exchangeRates = Inl e \<and> err_name e = ''TypeError''))"
  using processCountryData_defaults [of cs g exchangeRates]
    processCountryData_raises [of cs g exchangeRates]
  by blast

theorem reconciler_total_unless_null_witness:
  "raw_currencies bare = None \<and>
   raw_currencies nigeria = Some [Some (Currency (Some ''NGN''))] \<and>
   (\<exists>ds g'. processCountryData half [Some bare, Some nigeria] rates0 = Inr (ds, g') \<and>
      list_all2
        (\<lambda>country d. \<exists>c. country = Some c \<and>
           name d = (case raw_name c of None \<Rightarrow> [] | Some s \<Rightarrow> s) \<and>
           capital d = or_null (raw_capital c) \<and>
           region d = or_null (raw_region c) \<and>
           flag_url d = or_null (raw_flag c) \<and>
           population d =
                  (case raw_population c of
                     None \<Rightarrow> Num 0
                   | Some p \<Rightarrow> if truthy_num (Some p) then p else Num 0))
        [Some bare, Some nigeria] ds) \<and>
   (\<exists>e. processCountryData half [Some nigeria, None, Some bare] rates0 = Inl e \<and>
      err_name e = ''TypeError'')"
proof -
  have h1: "\<forall>country \<in> set [Some bare, Some nigeria]. \<exists>c. country = Some c \<and>
      (\<forall>rest. raw_currencies c \<noteq> Some (None # rest))"
    by (simp add: bare_def nigeria_def)
  have h2: "\<exists>country \<in> set [Some nigeria, None, Some bare].
      country = None \<or> (\<exists>c rest. country = Some c \<and> raw_currencies c = Some (None # rest))"
    by simp
  have a: "\<exists>ds g'. processCountryData half [Some bare, Some nigeria] rates0 = Inr (ds, g') \<and>
      list_all2
        (\<lambda>country d. \<exists>c. country = Some c \<and>
           name d = (case raw_name c of None \<Rightarrow> [] | Some s \<Rightarrow> s) \<and>
           capital d = or_null (raw_capital c) \<and>
           region d = or_null (raw_region c) \<and>
           flag_url d = or_null (raw_flag c) \<and>
           population d =
                  (case raw_population c of
                     None \<Rightarrow> Num 0
                   | Some p \<Rightarrow> if truthy_num (Some p) then p else Num 0))
        [Some bare, Some nigeria] ds"
    using reconciler_total_unless_null [of "[Some bare, Some nigeria]" half rates0] h1
    by blast
  have b: "\<exists>e. processCountryData half [Some nigeria, None, Some bare] rates0 = Inl e \<and>
      err_name e = ''TypeError''"
    using reconciler_total_unless_null [of "[Some nigeria, None, Some bare]" half rates0] h2
    by blast
  show ?thesis using a b by (simp add: bare_def nigeria_def)
qed

section \<open>The batch is one transaction\<close>

lemma upsert_loop_append:
  "upsert_loop eng now base pre = (None, mid) \<Longrightarrow>
     upsert_loop eng now base (pre @ rest) = upsert_loop eng now mid rest"
  by (induction pre arbitrary: base) (auto split: sum.splits)

lemma upsert_query_metadata:
  "upsert_query eng now base c = Inr base' \<Longrightarrow> refresh_metadata base' = refresh_metadata base"
  by (auto simp: upsert_query_def split: option.splits if_splits)

lemma upsert_loop_metadata:
  "refresh_metadata (snd (upsert_loop eng now base cs)) = refresh_metadata base"
  by (induction cs arbitrary: base) (auto split: sum.splits dest: upsert_query_metadata)

text \<open>
  C5. When the engine rejects the statement of some record of the batch, after the
  statements of the records before it went through, \<open>bulkUpsertCountries\<close> rethrows the
  error, the table and the metadata are what they were before the call, and
  \<open>getAllCountries\<close> answers every query as it did before.
\<close>

theorem bulkUpsert_all_or_nothing:
  assumes "batch = pre @ c # post"
    and "upsert_loop eng now base pre = (None, mid)"
    and "rejects eng (countries mid) c = Some e"
  shows "fst (bulkUpsertCountries eng now base batch) = Inl e \<and>
         countries (snd (bulkUpsertCountries eng now base batch)) = countries base \<and>
         refresh_metadata (snd (bulkUpsertCountries eng now base batch)) = refresh_metadata base \<and>
         getAllCountries eng f sort' (snd (bulkUpsertCountries eng now base batch))
           = getAllCountries eng f sort' base"
proof -
  have q: "upsert_query eng now mid c = Inl e"
    using assms(3) by (simp add: upsert_query_def)
  have l: "upsert_loop eng now base batch = (Some e, mid)"
    using upsert_loop_append [OF assms(2), of "c # post"] q assms(1) by simp
  have m: "refresh_metadata mid = refresh_metadata base"
    using upsert_loop_metadata [of eng now base pre] assms(2) by simp
  show ?thesis
    by (simp add: bulkUpsertCountries_def l rollback_def getAllCountries_def m)
qed

theorem bulkUpsert_all_or_nothing_witness:
  "upsert_loop strict 7 db0 [atlantis_data]
     = (None, db0\<lparr>countries := [lagos_row, atlantis_row], auto_increment := 3\<rparr>) \<and>
   rejects strict [lagos_row, atlantis_row] overlong_data
     = Some (Error ''Data too long for column currency_code'') \<and>
   fst (bulkUpsertCountries strict 7 db0 [atlantis_data, overlong_data])
     = Inl (Error ''Data too long for column currency_code'') \<and>
   countries (snd (bulkUpsertCountries strict 7 db0 [atlantis_data, overlong_data])) = [lagos_row] \<and>
   getAllCountries strict \<lparr>filter_region = None, filter_currency = None\<rparr> None
       (snd (bulkUpsertCountries strict 7 db0 [atlantis_data, overlong_data]))
     = getAllCountries strict \<lparr>filter_region = None, filter_currency = None\<rparr> None db0"
proof -
  have h1: "[atlantis_data, overlong_data] = [atlantis_data] @ overlong_data # []" by simp
  have h2: "upsert_loop strict 7 db0 [atlantis_data]
     = (None, db0\<lparr>countries := [lagos_row, atlantis_row], auto_increment := 3\<rparr>)"
    by (simp add: upsert_query_def strict_def storable_def db0_def atlantis_data_def
        atlantis_row_def lagos_row_def duplicate_key_def insert_row_def)
  have h3: "rejects strict
      (countries (db0\<lparr>countries := [lagos_row, atlantis_row], auto_increment := 3\<rparr>))
      overlong_data = Some (Error ''Data too long for column currency_code'')"
    by (simp add: strict_def storable_def overlong_data_def)
  show ?thesis
    using bulkUpsert_all_or_nothing [OF h1 h2 h3,
        of "\<lparr>filter_region = None, filter_currency = None\<rparr>" None] h2 h3
    by (simp add: db0_def)
qed

section \<open>The refresh\<close>

text \<open>
  C6. When either fetch fails, \<open>refreshCountries\<close> hands the error to \<open>next\<close> and the
  world, with the \<open>countries\<close> table and the refresh metadata, is as it was.
\<close>

theorem fetch_failure_leaves_world:
  assumes "isl (fetchCountries (countries_api env)) \<or> isl (fetchExchangeRates (rates_api env))"
  shows "snd (refreshCountries env w) = w \<and> isl (fst (refreshCountries env w))"
  using assms
  by (cases "fetchCountries (countries_api env)"; cases "fetchExchangeRates (rates_api env)")
     (auto simp: refreshCountries_def Promise_all_def)

theorem fetch_failure_leaves_world_witness:
  "isl (fetchExchangeRates (rates_api (env0\<lparr>rates_api := Response None\<rparr>))) \<and>
   snd (refreshCountries (env0\<lparr>rates_api := Response None\<rparr>) world0) = world0 \<and>
   isl (fst (refreshCountries (env0\<lparr>rates_api := Response None\<rparr>) world0))"
proof -
  have h: "isl (fetchExchangeRates (rates_api (env0\<lparr>rates_api := Response None\<rparr>)))"
    by (simp add: fetchExchangeRates_def)
  then have "isl (fetchCountries (countries_api (env0\<lparr>rates_api := Response None\<rparr>)))
      \<or> isl (fetchExchangeRates (rates_api (env0\<lparr>rates_api := Response None\<rparr>)))"
    by (rule disjI2)
  from fetch_failure_leaves_world [OF this, of world0] h show ?thesis by simp
qed

lemma str_includes_prefix: "str_includes (p @ s) p"
proof (cases "p @ s")
  case Nil
  then show ?thesis by simp
next
  case (Cons a list)
  have "take (length p) (p @ s) = p" by simp
  then show ?thesis unfolding Cons by simp
qed

text \<open>A failure that is not a timeout is answered with 503.\<close>

lemma fetchCountries_failure_503:
  assumes "code' \<noteq> Some ''ECONNABORTED''"
  shows "\<exists>e. fetchCountries (Rejected code' msg) = Inl e \<and>
           errorHandler e
             = (503, \<lparr>error = ''External data source unavailable'',
                  details = Some (Text (''Could not fetch data from Countries API: '' @ msg))\<rparr>)"
proof -
  have "str_includes (''Could not fetch data from'' @ ('' Countries API: '' @ msg))
          ''Could not fetch data from''"
    by (rule str_includes_prefix)
  then have "str_includes (''Could not fetch data from Countries API: '' @ msg)
          ''Could not fetch data from''"
    by simp
  then show ?thesis
    using assms by (simp add: fetchCountries_def errorHandler_def Error_def)
qed

text \<open>
  C7 says every failed fetch, timeouts included, is answered with 503 and the body
  \<open>{error: "External data source unavailable", details}\<close>. The code answers a timeout
  of either request with 500 and \<open>{error: "Internal server error"}\<close>: the messages of
  the timeout errors do not contain \<open>Could not fetch data from\<close>, which is what
  \<open>errorHandler\<close> looks for.
\<close>

theorem timeout_answered_500:
  "respond (fst (refreshCountries
      (env0\<lparr>countries_api := Rejected (Some ''ECONNABORTED'') ''timeout of 30000ms exceeded''\<rparr>)
      world0))
     = (500, Failed \<lparr>error = ''Internal server error'', details = None\<rparr>) \<and>
   respond (fst (refreshCountries
      (env0\<lparr>rates_api := Rejected (Some ''ECONNABORTED'') ''timeout of 30000ms exceeded''\<rparr>)
      world0))
     = (500, Failed \<lparr>error = ''Internal server error'', details = None\<rparr>)"
  by (simp add: refreshCountries_def Promise_all_def fetchCountries_def fetchExchangeRates_def
      env0_def respond_def errorHandler_def Error_def)

text \<open>
  C8, as the specification has it: a failure of the renderer leaves the refresh a
  success. It fails: with a renderer that throws, the batch is committed and the
  metadata updated, and \<open>refreshCountries\<close> hands the renderer's error to \<open>next\<close>; the
  answer is 500.
\<close>

theorem render_failure_counterexample:
  "fst (refreshCountries (env0\<lparr>render := (\<lambda>data. Inl (Error ''Input file is missing''))\<rparr>) world0)
     = Inl (Error ''Input file is missing'') \<and>
   respond (fst (refreshCountries
      (env0\<lparr>render := (\<lambda>data. Inl (Error ''Input file is missing''))\<rparr>) world0))
     = (500, Failed \<lparr>error = ''Internal server error'', details = None\<rparr>) \<and>
   db (snd (refreshCountries (env0\<lparr>render := (\<lambda>data. Inl (Error ''Input file is missing''))\<rparr>) world0))
     = \<lparr>countries = [lagos_row, atlantis_row],
        refresh_metadata = Some \<lparr>total_countries = 2, meta_last_refreshed_at = Some 7\<rparr>,
        auto_increment = 3\<rparr>"
  by (simp add: refreshCountries_def Promise_all_def fetchCountries_def fetchExchangeRates_def
      env0_def world0_def db0_def processCountry_def atlantis_def extractCurrencyCode_def
      rate_of_def or_null_def bulkUpsertCountries_def upsert_query_def strict_def
      storable_def duplicate_key_def lagos_row_def insert_row_def atlantis_row_def
      updateRefreshMetadata_def getRefreshMetadata_def generateSummaryImage_def
      respond_def errorHandler_def Error_def)

text \<open>
  C8, amended. When both fetches and the reconciler succeed, the batch is committed and
  the renderer throws, \<open>refreshCountries\<close> reports the renderer's error in place of the
  success; the committed batch and the updated metadata stay in the database.
\<close>

theorem render_failure_is_reported:
  assumes "fetchCountries (countries_api env) = Inr cs"
    and "fetchExchangeRates (rates_api env) = Inr exchangeRates"
    and "processCountryData (random env) cs exchangeRates = Inr (processed, g')"
    and "bulkUpsertCountries (storage env) (clock env) (db w) processed = (Inr count, db1)"
    and "db2 = updateRefreshMetadata (clock env) db1"
    and "render env
           \<lparr>summary_total_countries = total_countries (getRefreshMetadata db2),
            top_countries = getTopCountriesByGDP 5 db2,
            summary_last_refreshed_at = meta_last_refreshed_at (getRefreshMetadata db2)\<rparr>
         = Inl e"
  shows "refreshCountries env w = (Inl e, w\<lparr>db := db2\<rparr>)"
  using assms
  by (simp add: refreshCountries_def Promise_all_def generateSummaryImage_def Let_def)

theorem render_failure_is_reported_witness:
  "fetchCountries (Response [Some bouvet]) = Inr [Some bouvet] \<and>
   fetchExchangeRates (Response (Some rates0)) = Inr rates0 \<and>
   bulkUpsertCountries strict 7 db0
       [\<lparr>name = ''Bouvet Island'', capital = None, region = None, population = Num 0,
         currency_code = Some ''NOK'', exchange_rate = Some (Number (Num 10)),
         estimated_gdp = None, flag_url = None\<rparr>]
     = (Inr 1,
        db0\<lparr>countries :=
              [lagos_row,
               \<lparr>name = ''Bouvet Island'', capital = None, region = None, population = 0,
                currency_code = Some ''NOK'', exchange_rate = Some 10, estimated_gdp = None,
                flag_url = None, row_id = 2, last_refreshed_at = 7, created_at = 7\<rparr>],
            auto_increment := 3\<rparr>) \<and>
   refreshCountries
       (env0\<lparr>countries_api := Response [Some bouvet],
             render := (\<lambda>data. Inl (Error ''Input file is missing''))\<rparr>)
       world0
     = (Inl (Error ''Input file is missing''),
        world0\<lparr>db :=
          \<lparr>countries =
             [lagos_row,
              \<lparr>name = ''Bouvet Island'', capital = None, region = None, population = 0,
               currency_code = Some ''NOK'', exchange_rate = Some 10, estimated_gdp = None,
               flag_url = None, row_id = 2, last_refreshed_at = 7, created_at = 7\<rparr>],
           refresh_metadata = Some \<lparr>total_countries = 2, meta_last_refreshed_at = Some 7\<rparr>,
           auto_increment = 3\<rparr>\<rparr>)"
proof -
  let ?env = "env0\<lparr>countries_api := Response [Some bouvet],
                   render := (\<lambda>data. Inl (Error ''Input file is missing''))\<rparr>"
  let ?draft = "\<lparr>name = ''Bouvet Island'', capital = None, region = None,
                 population = Num 0, currency_code = Some ''NOK'',
                 exchange_rate = Some (Number (Num 10)), estimated_gdp = None,
                 flag_url = None\<rparr> :: country_data"
  let ?db1 = "db0\<lparr>countries := [lagos_row, insert_row 7 2 (columns strict ?draft)],
                  auto_increment := 3\<rparr>"
  let ?db2 = "\<lparr>countries = [lagos_row, insert_row 7 2 (columns strict ?draft)],
               refresh_metadata = Some \<lparr>total_countries = 2, meta_last_refreshed_at = Some 7\<rparr>,
               auto_increment = 3\<rparr> :: database"
  have h1: "fetchCountries (countries_api ?env) = Inr [Some bouvet]"
    by (simp add: fetchCountries_def)
  have h2: "fetchExchangeRates (rates_api ?env) = Inr rates0"
    by (simp add: fetchExchangeRates_def env0_def)
  have h3: "processCountryData (random ?env) [Some bouvet] rates0 = Inr ([?draft], half)"
    by (simp add: env0_def processCountry_def bouvet_def rates0_def extractCurrencyCode_def
        or_null_def rate_of_def calculateEstimatedGDP_def)
  have h4: "bulkUpsertCountries (storage ?env) (clock ?env) (db world0) [?draft] = (Inr 1, ?db1)"
    by (simp add: env0_def world0_def db0_def bulkUpsertCountries_def upsert_query_def
        strict_def storable_def duplicate_key_def lagos_row_def)
  have h5: "?db2 = updateRefreshMetadata (clock ?env) ?db1"
    by (simp add: env0_def db0_def updateRefreshMetadata_def)
  have h6: "render ?env
       \<lparr>summary_total_countries = total_countries (getRefreshMetadata ?db2),
        top_countries = getTopCountriesByGDP 5 ?db2,
        summary_last_refreshed_at = meta_last_refreshed_at (getRefreshMetadata ?db2)\<rparr>
      = Inl (Error ''Input file is missing'')"
    by simp
  show ?thesis
    using render_failure_is_reported [OF h1 h2 h3 h4 h5 h6] h1 h2 h4
    by (simp add: env0_def world0_def db0_def insert_row_def strict_def)
qed

end
